theory Spec2Isabelle
  imports Complex_Main
begin

section \<open>Prusa Connect SDK: the printer's communication engine\<close>

text \<open>
  A shallow embedding of \<^verbatim>\<open>prusa/connect/printer/__init__.py\<close>: the class
  \<^verbatim>\<open>Printer\<close> with its identity setters, \<^verbatim>\<open>is_initialised\<close>, the producers
  \<^verbatim>\<open>event_cb\<close> and \<^verbatim>\<open>telemetry\<close>, \<^verbatim>\<open>parse_command\<close>, \<^verbatim>\<open>get_token\<close> and
  the body of \<^verbatim>\<open>loop\<close>. The object's attributes and the module-level health flags are one
  record that every method takes and returns. Calls that leave the class (the HTTP session, the
  command object, the registration handler, \<^verbatim>\<open>sleep\<close>) are appended to a trace, and what
  they answer is read from an environment record.
\<close>

subsection \<open>Python values\<close>

text \<open>Truthiness of an optional string: \<^verbatim>\<open>None\<close> and \<^verbatim>\<open>""\<close> are false.\<close>

definition truthy :: "string option \<Rightarrow> bool" where
  "truthy s = (case s of None \<Rightarrow> False | Some v \<Rightarrow> v \<noteq> [])"

text \<open>\<^verbatim>\<open>int(x)\<close> of a float: truncation towards zero.\<close>

definition py_trunc :: "rat \<Rightarrow> int" where
  "py_trunc x = (if 0 \<le> x then \<lfloor>x\<rfloor> else \<lceil>x\<rceil>)"

text \<open>
  \<^verbatim>\<open>int(s)\<close> of a string, base ten, as CPython does it. The strings are header values as
  \<^verbatim>\<open>http.client\<close> delivers them, one character for each byte (ISO-8859-1). Whitespace
  around the number is stripped: the ASCII whitespace \<^verbatim>\<open>\t \n \v \f \r\<close> and the space,
  and the two other whitespace characters of that range, NEL (0x85) and the no-break space
  (0xA0); the separators 0x1C to 0x1F are not stripped. One sign is allowed, and the digits may
  be grouped by single underscores. \<open>None\<close> stands for the \<^verbatim>\<open>ValueError\<close>.
\<close>

definition py_isspace :: "char \<Rightarrow> bool" where
  "py_isspace c = (c \<in> set [CHR 0x09, CHR 0x0A, CHR 0x0B, CHR 0x0C, CHR 0x0D, CHR 0x20,
                             CHR 0x85, CHR 0xA0])"

definition py_strip :: "string \<Rightarrow> string" where
  "py_strip s = rev (dropWhile py_isspace (rev (dropWhile py_isspace s)))"

definition digit_val :: "char \<Rightarrow> int option" where
  "digit_val c = map_of [(CHR ''0'', 0), (CHR ''1'', 1), (CHR ''2'', 2), (CHR ''3'', 3),
                         (CHR ''4'', 4), (CHR ''5'', 5), (CHR ''6'', 6), (CHR ''7'', 7),
                         (CHR ''8'', 8), (CHR ''9'', 9)] c"

text \<open>The flag says whether the previous character was a digit.\<close>

fun py_digits :: "bool \<Rightarrow> int \<Rightarrow> string \<Rightarrow> int option" where
  "py_digits prev acc [] = (if prev then Some acc else None)"
| "py_digits prev acc (c # cs) =
     (if c = CHR ''_'' then (if prev then py_digits False acc cs else None)
      else (case digit_val c of
              None \<Rightarrow> None
            | Some d \<Rightarrow> py_digits True (acc * 10 + d) cs))"

text \<open>
  The digits after the sign. \<open>max_str_digits\<close> is \<^verbatim>\<open>sys.get_int_max_str_digits()\<close>: when
  it is not zero, a number with more digits (underscores not counted, leading zeros counted) is
  refused with a \<^verbatim>\<open>ValueError\<close>. It is 4300 by default since CPython 3.11 and zero, no
  limit, before.
\<close>

definition py_unsigned :: "nat \<Rightarrow> string \<Rightarrow> int option" where
  "py_unsigned max_str_digits ds =
     (if 0 < max_str_digits \<and> max_str_digits < length (filter (\<lambda>c. c \<noteq> CHR ''_'') ds)
      then None
      else py_digits False 0 ds)"

definition py_int :: "nat \<Rightarrow> string \<Rightarrow> int option" where
  "py_int max_str_digits s =
     (case py_strip s of
        [] \<Rightarrow> None
      | c # cs \<Rightarrow>
          if c = CHR ''-'' then map_option uminus (py_unsigned max_str_digits cs)
          else if c = CHR ''+'' then py_unsigned max_str_digits cs
          else py_unsigned max_str_digits (c # cs))"

text \<open>Values of keyword arguments and of decoded JSON.\<close>

datatype state = READY | BUSY | PRINTING | PAUSED | FINISHED | ERROR | ATTENTION

datatype pyval = PNone | PBool bool | PInt int | PNum rat | PStr string | PState state

datatype json = JNull | JBool bool | JInt int | JReal rat | JStr string
  | JArr "json list" | JObj "(string \<times> json) list"

text \<open>
  A \<^verbatim>\<open>dict\<close> with string keys, in insertion order. \<^verbatim>\<open>d[k] = v\<close> replaces the value
  of a key that is present and appends a new key.
\<close>

type_synonym 'v dict = "(string \<times> 'v) list"

fun dict_set :: "string \<Rightarrow> 'v \<Rightarrow> 'v dict \<Rightarrow> 'v dict" where
  "dict_set k v [] = [(k, v)]"
| "dict_set k v ((k', v') # kvs) =
     (if k = k' then (k, v) # kvs else (k', v') # dict_set k v kvs)"

subsection \<open>Queue items\<close>

datatype event = ACCEPTED | REJECTED | EV_FINISHED | INFO | STATE_CHANGED
  | MEDIUM_EJECTED | MEDIUM_INSERTED | FILE_CHANGED | FILE_INFO | DOWNLOAD_INFO

datatype source = CONNECT | GUI | WUI | SERIAL | GCODE | MARLIN | FIRMWARE | HW

definition CODE_TIMEOUT :: int where
  "CODE_TIMEOUT = 60 * 30"

text \<open>
  Modelled from the spec: \<^verbatim>\<open>const.TIMESTAMP_PRECISION\<close> (\<^verbatim>\<open>const.py\<close> is not among the
  sources), the fixed precision of the timestamps, which \<^verbatim>\<open>make_headers\<close> multiplies with
  \<^verbatim>\<open>int(time() * 10)\<close>.
\<close>

definition TIMESTAMP_PRECISION :: rat where
  "TIMESTAMP_PRECISION = 1 / 10"

text \<open>
  \<^verbatim>\<open>Union[Event, Telemetry, Register]\<close>. An event and a telemetry sample hold what their
  constructors were given; a registration item holds the temporary code and its deadline.
\<close>

datatype item =
    Telemetry (t_state: state) (t_timestamp: rat) (t_kwargs: "pyval dict")
  | Event (e_event: event) (e_source: source) (e_timestamp: rat)
      (e_command_id: "int option") (e_kwargs: "pyval dict")
  | Register (r_code: string) (r_timeout: int)

text \<open>
  \<^verbatim>\<open>Register.__init__\<close>: \<^verbatim>\<open>self.timeout = int(time()) + CODE_TIMEOUT\<close>, where
  \<open>now\<close> is what \<^verbatim>\<open>time()\<close> returns.
\<close>

definition Register_init :: "rat \<Rightarrow> string \<Rightarrow> item" where
  "Register_init now code = Register code (py_trunc now + CODE_TIMEOUT)"

text \<open>
  Modelled from the spec: the constructors of \<^verbatim>\<open>models.Event\<close> and
  \<^verbatim>\<open>models.Telemetry\<close> (\<^verbatim>\<open>models.py\<close> is not among the sources): the timestamp
  defaults to the creation time, the other arguments are stored.
\<close>

definition default_timestamp :: "rat option \<Rightarrow> rat \<Rightarrow> rat" where
  "default_timestamp timestamp now = (case timestamp of None \<Rightarrow> now | Some t \<Rightarrow> t)"

definition Telemetry_init :: "rat \<Rightarrow> state \<Rightarrow> rat option \<Rightarrow> pyval dict \<Rightarrow> item" where
  "Telemetry_init now st timestamp kwargs =
     Telemetry st (default_timestamp timestamp now) kwargs"

definition Event_init ::
  "rat \<Rightarrow> event \<Rightarrow> source \<Rightarrow> rat option \<Rightarrow> int option \<Rightarrow> pyval dict \<Rightarrow> item" where
  "Event_init now ev src timestamp command_id kwargs =
     Event ev src (default_timestamp timestamp now) command_id kwargs"

subsection \<open>Responses, requests and the trace of outside calls\<close>

text \<open>
  A response of the HTTP session: the status, the headers, the body text, and what
  \<^verbatim>\<open>res.json()\<close> gives (\<open>Inl\<close> the text of the exception it raises). The headers of
  \<^verbatim>\<open>requests\<close> are looked up without regard to case.
\<close>

record response =
  status_code :: int
  headers :: "(string \<times> string) list"
  text_body :: string
  json_body :: "string + json"

definition lower_char :: "char \<Rightarrow> char" where
  "lower_char c =
     (case map_of (zip ''ABCDEFGHIJKLMNOPQRSTUVWXYZ'' ''abcdefghijklmnopqrstuvwxyz'') c of
        None \<Rightarrow> c
      | Some l \<Rightarrow> l)"

definition headers_get :: "(string \<times> string) list \<Rightarrow> string \<Rightarrow> string option" where
  "headers_get hs name =
     map_of (map (\<lambda>(k, v). (map lower_char k, v)) hs) (map lower_char name)"

text \<open>What \<^verbatim>\<open>make_headers\<close> returns, before the values are turned into text.\<close>

record request_headers =
  h_fingerprint :: "string option"
  h_timestamp :: rat
  h_token :: "string option"
  h_clock_adjusted :: bool
  h_temporary_code :: "string option"

text \<open>The arguments of one call of \<^verbatim>\<open>Command.accept\<close>.\<close>

record accept_call =
  a_command_id :: int
  a_command :: json
  a_args :: json
  a_kwargs :: json
  a_force :: "bool option"

datatype effect =
    HttpPost string request_headers item
  | HttpGet string request_headers
  | ParseCommand response
  | JsonDecode
  | CheckState int
  | Accept accept_call
  | RegisterHandler string
  | Sleep nat

text \<open>What a call of the session does: it returns a response or raises.\<close>

datatype exn = ConnectionError | RequestException | OtherException

datatype outcome = Response response | Raises exn

text \<open>
  The surroundings of one iteration of the loop: the two readings of \<^verbatim>\<open>time()\<close> (when the
  headers are made, and after the response), the clock watcher, the interpreter's limit on the
  digits of \<^verbatim>\<open>int\<close>, the outcome of the request, and
  the collaborators that are not part of this class: \<^verbatim>\<open>Command.check_state\<close>,
  \<^verbatim>\<open>Command.accept\<close> (the text of the exception it raises, if any) and the registration
  handler (the exception it raises, if any).
\<close>

record env =
  time_request :: rat
  time_response :: rat
  clock_adjusted :: bool
  int_max_str_digits :: nat
  outcome :: outcome
  check_state :: "int \<Rightarrow> bool"
  accept_raises :: "accept_call \<Rightarrow> string option"
  handler_raises :: "string \<Rightarrow> exn option"

text \<open>
  \<^verbatim>\<open>default_register_handler\<close>: \<^verbatim>\<open>assert token\<close>, which raises on the empty string.
\<close>

definition default_register_handler :: "string \<Rightarrow> exn option" where
  "default_register_handler token = (if token = [] then Some OtherException else None)"

subsection \<open>The printer\<close>

text \<open>
  The attributes of \<^verbatim>\<open>Printer\<close> that the modelled methods read or write, the current
  download of the download manager, and the four flags of the module \<^verbatim>\<open>errors\<close>.

  Modelled from the spec: the flags \<^verbatim>\<open>errors.HTTP\<close> (transport), \<^verbatim>\<open>errors.API\<close>,
  \<^verbatim>\<open>errors.TOKEN\<close> and \<^verbatim>\<open>errors.INTERNET\<close> (\<^verbatim>\<open>errors.py\<close> is not among the
  sources) are independently settable booleans: assigning \<^verbatim>\<open>ok\<close> of one changes no other.
\<close>

type_synonym printer_type = "int \<times> int \<times> int"

record download =
  progress :: pyval
  time_remaining :: pyval
  downloaded :: pyval

record printer =
  server :: "string option"
  token :: "string option"
  sn :: "string option"
  fingerprint :: "string option"
  ptype :: "printer_type option"
  job_id :: "int option"
  download_current :: "download option"
  queue :: "item list"
  running_loop :: bool
  HTTP_ok :: bool
  API_ok :: bool
  TOKEN_ok :: bool
  INTERNET_ok :: bool
  trace :: "effect list"

datatype error = RuntimeError string

definition emit :: "effect \<Rightarrow> printer \<Rightarrow> printer" where
  "emit e p = p\<lparr>trace := trace p @ [e]\<rparr>"

definition queue_put :: "item \<Rightarrow> printer \<Rightarrow> printer" where
  "queue_put i p = p\<lparr>queue := queue p @ [i]\<rparr>"

subsection \<open>Identity\<close>

definition set_fingerprint :: "string option \<Rightarrow> printer \<Rightarrow> error + printer" where
  "set_fingerprint v p =
     (if fingerprint p \<noteq> None then Inl (RuntimeError ''Fingerprint is already set.'')
      else Inr (p\<lparr>fingerprint := v\<rparr>))"

definition set_sn :: "string option \<Rightarrow> printer \<Rightarrow> error + printer" where
  "set_sn v p =
     (if sn p \<noteq> None then Inl (RuntimeError ''Serial number is already set.'')
      else Inr (p\<lparr>sn := v\<rparr>))"

definition set_type :: "printer_type option \<Rightarrow> printer \<Rightarrow> error + printer" where
  "set_type v p =
     (if ptype p \<noteq> None then Inl (RuntimeError ''Printer type is already set.'')
      else Inr (p\<lparr>ptype := v\<rparr>))"

text \<open>
  \<^verbatim>\<open>is_initialised\<close> returns the flag together with the printer, whose API flag it clears
  when the answer is no.
\<close>

definition initialised :: "printer \<Rightarrow> bool" where
  "initialised p = (truthy (sn p) \<and> truthy (fingerprint p) \<and> ptype p \<noteq> None)"

definition is_initialised :: "printer \<Rightarrow> bool \<times> printer" where
  "is_initialised p =
     (if \<not> initialised p then (False, p\<lparr>API_ok := False\<rparr>) else (True, p))"

subsection \<open>Producers\<close>

text \<open>\<^verbatim>\<open>if self.job_id: kwargs['job_id'] = self.job_id\<close>; a job id of zero is false.\<close>

definition with_job_id :: "printer \<Rightarrow> pyval dict \<Rightarrow> pyval dict" where
  "with_job_id p kwargs =
     (case job_id p of
        None \<Rightarrow> kwargs
      | Some n \<Rightarrow> if n \<noteq> 0 then dict_set ''job_id'' (PInt n) kwargs else kwargs)"

text \<open>
  \<^verbatim>\<open>event_cb\<close>; \<open>now\<close> is the time at which the event is created. Without a token the
  event is skipped.
\<close>

definition event_cb ::
  "rat \<Rightarrow> event \<Rightarrow> source \<Rightarrow> rat option \<Rightarrow> int option \<Rightarrow> pyval dict
     \<Rightarrow> printer \<Rightarrow> printer" where
  "event_cb now ev src timestamp command_id kwargs p =
     (if \<not> truthy (token p) then p
      else
        let event' = Event_init now ev src timestamp command_id (with_job_id p kwargs)
        in queue_put event' (snd (is_initialised p)))"

definition with_download :: "printer \<Rightarrow> pyval dict \<Rightarrow> pyval dict" where
  "with_download p kwargs =
     (case download_current p of
        None \<Rightarrow> kwargs
      | Some d \<Rightarrow>
          dict_set ''download_bytes'' (downloaded d)
            (dict_set ''download_time_remaining'' (time_remaining d)
              (dict_set ''download_progress'' (progress d) kwargs)))"

definition telemetry :: "rat \<Rightarrow> state \<Rightarrow> rat option \<Rightarrow> pyval dict \<Rightarrow> printer \<Rightarrow> printer" where
  "telemetry now st timestamp kwargs p =
     (if \<not> truthy (token p) then p
      else
        let kwargs' = with_download p (with_job_id p kwargs);
            (init, p') = is_initialised p;
            telemetry' = (if init then Telemetry_init now st timestamp kwargs'
                          else Telemetry_init now st timestamp [])
        in queue_put telemetry' p')"

subsection \<open>Request headers\<close>

text \<open>
  \<^verbatim>\<open>make_headers\<close>: \<^verbatim>\<open>timestamp or int(time() * 10) * const.TIMESTAMP_PRECISION\<close>, so a
  timestamp of zero is replaced like a missing one. Resetting the clock watcher changes no
  attribute of the printer.
\<close>

definition make_headers :: "env \<Rightarrow> rat option \<Rightarrow> printer \<Rightarrow> request_headers" where
  "make_headers e timestamp p =
     \<lparr>h_fingerprint = fingerprint p,
      h_timestamp =
        (case timestamp of
           None \<Rightarrow> of_int (py_trunc (time_request e * 10)) * TIMESTAMP_PRECISION
         | Some t \<Rightarrow>
             if t = 0 then of_int (py_trunc (time_request e * 10)) * TIMESTAMP_PRECISION
             else t),
      h_token = (if truthy (token p) then token p else None),
      h_clock_adjusted = clock_adjusted e,
      h_temporary_code = None\<rparr>"

definition server_url :: "printer \<Rightarrow> string" where
  "server_url p = (case server p of None \<Rightarrow> [] | Some s \<Rightarrow> s)"

subsection \<open>Parsing the command of a response\<close>

definition NOT_INITIALISED_MSG :: string where
  "NOT_INITIALISED_MSG = ''Printer has not been initialized properly''"

text \<open>
  Modelled from the spec: \<^verbatim>\<open>const.Command.GCODE.value\<close> (\<^verbatim>\<open>const.py\<close> is not among
  the sources), the name of the G-code command.
\<close>

definition Command_GCODE_value :: string where
  "Command_GCODE_value = ''GCODE''"

text \<open>The text of an \<^verbatim>\<open>AttributeError\<close>.\<close>

definition quoted :: "string \<Rightarrow> string" where
  "quoted s = CHR 0x27 # s @ [CHR 0x27]"

definition no_attribute :: "string \<Rightarrow> string \<Rightarrow> string" where
  "no_attribute tyname attr = quoted tyname @ '' object has no attribute '' @ quoted attr"

fun py_type_name :: "json \<Rightarrow> string" where
  "py_type_name JNull = ''NoneType''"
| "py_type_name (JBool b) = ''bool''"
| "py_type_name (JInt i) = ''int''"
| "py_type_name (JReal r) = ''float''"
| "py_type_name (JStr s) = ''str''"
| "py_type_name (JArr xs) = ''list''"
| "py_type_name (JObj kvs) = ''dict''"

text \<open>\<^verbatim>\<open>data.get(key, default)\<close> on a decoded object, where a repeated key has its last value.\<close>

definition dict_get :: "(string \<times> json) list \<Rightarrow> string \<Rightarrow> json \<Rightarrow> json" where
  "dict_get kvs k d = (case map_of (rev kvs) k of None \<Rightarrow> d | Some v \<Rightarrow> v)"

text \<open>
  \<^verbatim>\<open>int(res.headers.get("Command-Id"))\<close>: \<open>None\<close> for the \<^verbatim>\<open>TypeError\<close> of a missing
  header and for the \<^verbatim>\<open>ValueError\<close> of a malformed one.
\<close>

definition command_id_of :: "env \<Rightarrow> response \<Rightarrow> int option" where
  "command_id_of e res =
     (case headers_get (headers res) ''Command-Id'' of
        None \<Rightarrow> None
      | Some h \<Rightarrow> py_int (int_max_str_digits e) h)"

text \<open>
  Calling \<^verbatim>\<open>self.command.accept\<close>: the call is recorded; \<open>Inl\<close> carries the text of the
  exception and the printer at the time it is raised.
\<close>

definition call_accept :: "env \<Rightarrow> accept_call \<Rightarrow> printer \<Rightarrow> string \<times> printer + printer" where
  "call_accept e c p =
     (let p' = emit (Accept c) p
      in case accept_raises e c of None \<Rightarrow> Inr p' | Some msg \<Rightarrow> Inl (msg, p'))"

text \<open>The body of the \<^verbatim>\<open>try\<close> statement of \<^verbatim>\<open>parse_command\<close>.\<close>

definition dispatch :: "env \<Rightarrow> response \<Rightarrow> int \<Rightarrow> printer \<Rightarrow> string \<times> printer + printer" where
  "dispatch e res command_id p =
     (case headers_get (headers res) ''content-type'' of
        None \<Rightarrow> Inl (no_attribute ''NoneType'' ''startswith'', p)
      | Some content_type \<Rightarrow>
          if take (length ''application/json'') content_type = ''application/json'' then
            (let p1 = emit JsonDecode p
             in case json_body res of
                  Inl msg \<Rightarrow> Inl (msg, p1)
                | Inr data \<Rightarrow>
                    let p2 = emit (CheckState command_id) p1
                    in if check_state e command_id then
                         (case data of
                            JObj kvs \<Rightarrow>
                              call_accept e
                                \<lparr>a_command_id = command_id,
                                 a_command = dict_get kvs ''command'' (JStr []),
                                 a_args = dict_get kvs ''args'' JNull,
                                 a_kwargs = dict_get kvs ''kwargs'' JNull,
                                 a_force = None\<rparr> p2
                          | _ \<Rightarrow> Inl (no_attribute (py_type_name data) ''get'', p2))
                       else Inr p2)
          else if content_type = ''text/x.gcode'' then
            (let p1 = emit (CheckState command_id) p
             in if check_state e command_id then
                  call_accept e
                    \<lparr>a_command_id = command_id,
                     a_command = JStr Command_GCODE_value,
                     a_args = JArr [JStr (text_body res)],
                     a_kwargs = JNull,
                     a_force = Some (headers_get (headers res) ''Force'' = Some ''1'')\<rparr> p1
                else Inr p1)
          else Inl (''Invalid command content type'', p))"

definition parse_command :: "env \<Rightarrow> response \<Rightarrow> printer \<Rightarrow> printer" where
  "parse_command e res p0 =
     (let p = emit (ParseCommand res) p0
      in if status_code res = 200 then
           (case command_id_of e res of
              None \<Rightarrow>
                event_cb (time_response e) REJECTED CONNECT None None
                  [(''reason'', PStr ''Invalid Command-Id header'')] p
            | Some command_id \<Rightarrow>
                let (init, p1) = is_initialised p
                in if \<not> init then
                     event_cb (time_response e) REJECTED WUI None (Some command_id)
                       [(''reason'', PStr NOT_INITIALISED_MSG)] p1
                   else
                     (case dispatch e res command_id p1 of
                        Inr p2 \<Rightarrow> p2
                      | Inl (msg, p2) \<Rightarrow>
                          event_cb (time_response e) REJECTED CONNECT None (Some command_id)
                            [(''reason'', PStr msg)] p2))
         else p)"

subsection \<open>The loop\<close>

text \<open>\<^verbatim>\<open>get_token\<close>: the request is recorded and the session's outcome returned.\<close>

definition get_token :: "env \<Rightarrow> string \<Rightarrow> printer \<Rightarrow> error + outcome \<times> printer" where
  "get_token e tmp_code p =
     (if \<not> truthy (server p) then Inl (RuntimeError ''Server is not set'')
      else
        let hdrs = (make_headers e None p)\<lparr>h_temporary_code := Some tmp_code\<rparr>
        in Inr (outcome e, emit (HttpGet (server_url p @ ''/p/register'') hdrs) p))"

text \<open>
  How the \<^verbatim>\<open>if\<close> chain over the item ends: with \<^verbatim>\<open>continue\<close>, with an exception, or with
  a response \<^verbatim>\<open>res\<close> that reaches the handling of the status.
\<close>

datatype branch = Continue printer | Raised exn printer | Exchanged response printer

text \<open>\<^verbatim>\<open>self.conn.post\<close>: the request is recorded and the session's outcome returned.\<close>

definition post :: "env \<Rightarrow> string \<Rightarrow> request_headers \<Rightarrow> item \<Rightarrow> printer \<Rightarrow> outcome \<times> printer" where
  "post e path hdrs it p = (outcome e, emit (HttpPost (server_url p @ path) hdrs it) p)"

definition exchange :: "env \<Rightarrow> item \<Rightarrow> printer \<Rightarrow> branch" where
  "exchange e it p =
     (case it of
        Telemetry st ts kw \<Rightarrow>
          if truthy (token p) then
            (case post e ''/p/telemetry'' (make_headers e (Some ts) p) it p of
               (Response res, p1) \<Rightarrow> Exchanged res (parse_command e res p1)
             | (Raises x, p1) \<Rightarrow> Raised x p1)
          else Continue p
      | Event ev src ts cid kw \<Rightarrow>
          if truthy (token p) then
            (case post e ''/p/events'' (make_headers e (Some ts) p) it p of
               (Response res, p1) \<Rightarrow> Exchanged res p1
             | (Raises x, p1) \<Rightarrow> Raised x p1)
          else Continue p
      | Register code timeout \<Rightarrow>
          (case get_token e code p of
             Inl err \<Rightarrow> Raised OtherException p
           | Inr (Raises x, p1) \<Rightarrow> Raised x p1
           | Inr (Response res, p1) \<Rightarrow>
               if status_code res = 200 then
                 (case headers_get (headers res) ''Token'' of
                    None \<Rightarrow> Raised OtherException p1
                  | Some tok \<Rightarrow>
                      let p2 = emit (RegisterHandler tok) (p1\<lparr>token := Some tok, TOKEN_ok := True\<rparr>)
                      in case handler_raises e tok of
                           None \<Rightarrow> Exchanged res p2
                         | Some x \<Rightarrow> Raised x p2)
               else if status_code res = 202 \<and> of_int timeout > time_response e then
                 Exchanged res (emit (Sleep 1) (queue_put it p1))
               else Exchanged res p1))"

text \<open>The statements after the chain: the flags follow the status of the response.\<close>

definition status_flags :: "response \<Rightarrow> printer \<Rightarrow> printer" where
  "status_flags res p =
     (let p1 = p\<lparr>API_ok := True\<rparr>
      in if status_code res \<ge> 400 then
           (let p2 = p1\<lparr>API_ok := False\<rparr>
            in if status_code res = 401 then p2\<lparr>TOKEN_ok := False\<rparr> else p2)
         else p1)"

text \<open>The \<^verbatim>\<open>except\<close> clauses.\<close>

fun handle :: "exn \<Rightarrow> printer \<Rightarrow> printer" where
  "handle ConnectionError p = p\<lparr>HTTP_ok := False\<rparr>"
| "handle RequestException p = p\<lparr>INTERNET_ok := False\<rparr>"
| "handle OtherException p = p\<lparr>INTERNET_ok := False\<rparr>"

text \<open>
  One iteration of the \<^verbatim>\<open>while\<close> loop. An empty queue is the \<^verbatim>\<open>Empty\<close> exception of
  \<^verbatim>\<open>queue.get\<close>, which only continues.
\<close>

definition loop_iter :: "env \<Rightarrow> printer \<Rightarrow> printer" where
  "loop_iter e p =
     (case queue p of
        [] \<Rightarrow> p
      | it # rest \<Rightarrow>
          let p1 = p\<lparr>queue := rest\<rparr>
          in if \<not> truthy (server p1) then p1
             else (case exchange e it p1 of
                     Continue p2 \<Rightarrow> p2
                   | Raised x p2 \<Rightarrow> handle x p2
                   | Exchanged res p2 \<Rightarrow> status_flags res p2))"

text \<open>
  The loop runs beside the producers, which put items on the queue, and beside whoever calls
  \<^verbatim>\<open>stop_loop\<close>. A schedule lists what happens in order: a put, a stop, or one iteration
  of the loop in its surroundings. After a stop the loop has returned and iterates no more.
\<close>

datatype step = Push item | Stop | Iterate env

fun run :: "step list \<Rightarrow> printer \<Rightarrow> printer" where
  "run [] p = p"
| "run (Push it # sched) p = run sched (queue_put it p)"
| "run (Stop # sched) p = run sched (p\<lparr>running_loop := False\<rparr>)"
| "run (Iterate e # sched) p = (if running_loop p then run sched (loop_iter e p) else run sched p)"

definition loop :: "step list \<Rightarrow> printer \<Rightarrow> printer" where
  "loop sched p = run sched (p\<lparr>running_loop := True\<rparr>)"

text \<open>The calls of the HTTP session in a trace.\<close>

fun is_http :: "effect \<Rightarrow> bool" where
  "is_http (HttpPost url hdrs it) = True"
| "is_http (HttpGet url hdrs) = True"
| "is_http _ = False"

definition http_calls :: "printer \<Rightarrow> effect list" where
  "http_calls p = filter is_http (trace p)"

subsection \<open>Reading the trace\<close>

text \<open>The responses handed to \<^verbatim>\<open>parse_command\<close> and the calls of \<^verbatim>\<open>accept\<close>, in order.\<close>

definition parsed :: "printer \<Rightarrow> response list" where
  "parsed p = concat (map (\<lambda>x. case x of ParseCommand r \<Rightarrow> [r] | _ \<Rightarrow> []) (trace p))"

definition accept_calls :: "printer \<Rightarrow> accept_call list" where
  "accept_calls p = concat (map (\<lambda>x. case x of Accept c \<Rightarrow> [c] | _ \<Rightarrow> []) (trace p))"

text \<open>The effects that the \<^verbatim>\<open>try\<close> statement of \<^verbatim>\<open>parse_command\<close> can cause.\<close>

fun command_effect :: "effect \<Rightarrow> bool" where
  "command_effect JsonDecode = True"
| "command_effect (CheckState i) = True"
| "command_effect (Accept c) = True"
| "command_effect _ = False"

text \<open>
  \<open>framed p effs p'\<close>: from \<open>p\<close> to \<open>p'\<close> the trace grew by \<open>effs\<close>, and the connection
  settings, the loop flag and the flags other than the API flag are as they were.
\<close>

definition framed :: "printer \<Rightarrow> effect list \<Rightarrow> printer \<Rightarrow> bool" where
  "framed p effs p' =
     (trace p' = trace p @ effs \<and> HTTP_ok p' = HTTP_ok p \<and> TOKEN_ok p' = TOKEN_ok p
      \<and> INTERNET_ok p' = INTERNET_ok p \<and> token p' = token p \<and> server p' = server p
      \<and> running_loop p' = running_loop p)"

text \<open>Registration items, and the puts of a schedule that add one.\<close>

fun is_register :: "item \<Rightarrow> bool" where
  "is_register (Register code timeout) = True"
| "is_register _ = False"

fun pushes_register :: "step \<Rightarrow> bool" where
  "pushes_register (Push it) = is_register it"
| "pushes_register _ = False"

subsection \<open>Sample data\<close>

text \<open>A registered, initialised printer with a running job, and a download in progress.\<close>

definition sample_printer :: printer where
  "sample_printer =
     \<lparr>server = Some ''http://server'', token = Some ''tok'', sn = Some ''SN1'',
      fingerprint = Some ''fp'', ptype = Some (1, 3, 0), job_id = Some 42,
      download_current = None, queue = [], running_loop = False,
      HTTP_ok = True, API_ok = True, TOKEN_ok = True, INTERNET_ok = True, trace = []\<rparr>"

definition sample_download :: download where
  "sample_download = \<lparr>progress = PNum (1 / 2), time_remaining = PInt 60, downloaded = PInt 512\<rparr>"

text \<open>
  Surroundings in which the request has the given outcome, the command object is free and
  accepts, and the registration handler is the default one.
\<close>

definition sample_env :: "outcome \<Rightarrow> env" where
  "sample_env out =
     \<lparr>time_request = 1000, time_response = 1001, clock_adjusted = False,
      int_max_str_digits = 4300, outcome = out,
      check_state = (\<lambda>command_id. True), accept_raises = (\<lambda>c. None),
      handler_raises = default_register_handler\<rparr>"

definition sample_response :: "int \<Rightarrow> (string \<times> string) list \<Rightarrow> response" where
  "sample_response status hdrs =
     \<lparr>status_code = status, headers = hdrs, text_body = ''G28'',
      json_body = Inl ''Expecting value: line 1 column 1 (char 0)''\<rparr>"

text \<open>A response that carries the command \<^verbatim>\<open>SEND_INFO\<close> with the id 7.\<close>

definition command_response :: response where
  "command_response =
     \<lparr>status_code = 200,
      headers = [(''Command-Id'', ''7''), (''Content-Type'', ''application/json'')],
      text_body = ''{\"command\": \"SEND_INFO\"}'',
      json_body = Inr (JObj [(''command'', JStr ''SEND_INFO'')])\<rparr>"

section \<open>Properties\<close>

subsection \<open>What the parts leave alone\<close>

lemma emit_fields:
  "trace (emit x p) = trace p @ [x]"
  "queue (emit x p) = queue p"
  "HTTP_ok (emit x p) = HTTP_ok p"
  "TOKEN_ok (emit x p) = TOKEN_ok p"
  "API_ok (emit x p) = API_ok p"
  "INTERNET_ok (emit x p) = INTERNET_ok p"
  "token (emit x p) = token p"
  "server (emit x p) = server p"
  "running_loop (emit x p) = running_loop p"
  "sn (emit x p) = sn p"
  "fingerprint (emit x p) = fingerprint p"
  "ptype (emit x p) = ptype p"
  "job_id (emit x p) = job_id p"
  by (simp_all add: emit_def)

lemma event_cb_fields:
  "trace (event_cb now ev src ts cid kw p) = trace p"
  "HTTP_ok (event_cb now ev src ts cid kw p) = HTTP_ok p"
  "TOKEN_ok (event_cb now ev src ts cid kw p) = TOKEN_ok p"
  "INTERNET_ok (event_cb now ev src ts cid kw p) = INTERNET_ok p"
  "token (event_cb now ev src ts cid kw p) = token p"
  "server (event_cb now ev src ts cid kw p) = server p"
  "running_loop (event_cb now ev src ts cid kw p) = running_loop p"
  by (simp_all add: event_cb_def is_initialised_def queue_put_def Let_def)

lemma event_cb_queue:
  "queue (event_cb now ev src ts cid kw p) =
     (if truthy (token p)
      then queue p @ [Event ev src (default_timestamp ts now) cid (with_job_id p kw)]
      else queue p)"
  by (simp add: event_cb_def is_initialised_def queue_put_def Let_def Event_init_def with_job_id_def)

lemma call_accept_appends:
  "call_accept e c p = Inr p2 \<or> call_accept e c p = Inl (m, p2)
   \<Longrightarrow> p2 = p\<lparr>trace := trace p @ [Accept c]\<rparr>"
  by (auto simp: call_accept_def emit_def Let_def split: option.splits)

lemma dispatch_appends:
  assumes "dispatch e res cid p = Inr p2 \<or> dispatch e res cid p = Inl (m, p2)"
  shows "\<exists>effs. p2 = p\<lparr>trace := trace p @ effs\<rparr> \<and> list_all command_effect effs"
proof (cases "headers_get (headers res) ''content-type''")
  case None
  with assms have "p2 = p" by (simp add: dispatch_def)
  then have "p2 = p\<lparr>trace := trace p @ []\<rparr> \<and> list_all command_effect []" by simp
  then show ?thesis by blast
next
  case (Some ct)
  show ?thesis
  proof (cases "take (length ''application/json'') ct = ''application/json''")
    case True
    note json = this
    show ?thesis
    proof (cases "json_body res")
      case (Inl msg)
      with assms Some json have "p2 = p\<lparr>trace := trace p @ [JsonDecode]\<rparr>"
        by (simp add: dispatch_def Let_def emit_def)
      then show ?thesis by (intro exI [of _ "[JsonDecode]"]) simp
    next
      case (Inr data)
      show ?thesis
      proof (cases "check_state e cid")
        case False
        with assms Some json Inr have "p2 = p\<lparr>trace := trace p @ [JsonDecode, CheckState cid]\<rparr>"
          by (simp add: dispatch_def Let_def emit_def)
        then show ?thesis by (intro exI [of _ "[JsonDecode, CheckState cid]"]) simp
      next
        case True
        show ?thesis
        proof (cases "\<exists>kvs. data = JObj kvs")
          case False
          with assms Some json Inr True
          have "p2 = p\<lparr>trace := trace p @ [JsonDecode, CheckState cid]\<rparr>"
            by (cases data) (simp_all add: dispatch_def Let_def emit_def)
          then show ?thesis by (intro exI [of _ "[JsonDecode, CheckState cid]"]) simp
        next
          case True
          then obtain kvs where "data = JObj kvs" by blast
          with assms Some json Inr \<open>check_state e cid\<close>
          obtain c where "call_accept e c (emit (CheckState cid) (emit JsonDecode p)) = Inr p2
              \<or> call_accept e c (emit (CheckState cid) (emit JsonDecode p)) = Inl (m, p2)"
            by (auto simp: dispatch_def Let_def)
          from call_accept_appends [OF this]
          have "p2 = p\<lparr>trace := trace p @ [JsonDecode, CheckState cid, Accept c]\<rparr>"
            by (simp add: emit_def)
          then show ?thesis by (intro exI [of _ "[JsonDecode, CheckState cid, Accept c]"]) simp
        qed
      qed
    qed
  next
    case False
    note nojson = this
    show ?thesis
    proof (cases "ct = ''text/x.gcode''")
      case False
      with assms Some nojson have "p2 = p" by (simp add: dispatch_def)
      then have "p2 = p\<lparr>trace := trace p @ []\<rparr> \<and> list_all command_effect []" by simp
      then show ?thesis by blast
    next
      case True
      note gcode = this
      show ?thesis
      proof (cases "check_state e cid")
        case False
        with assms Some nojson gcode have "p2 = p\<lparr>trace := trace p @ [CheckState cid]\<rparr>"
          by (simp add: dispatch_def Let_def emit_def)
        then show ?thesis by (intro exI [of _ "[CheckState cid]"]) simp
      next
        case True
        with assms Some nojson gcode
        obtain c where "call_accept e c (emit (CheckState cid) p) = Inr p2
              \<or> call_accept e c (emit (CheckState cid) p) = Inl (m, p2)"
          by (auto simp: dispatch_def Let_def)
        from call_accept_appends [OF this]
        have "p2 = p\<lparr>trace := trace p @ [CheckState cid, Accept c]\<rparr>"
          by (simp add: emit_def)
        then show ?thesis by (intro exI [of _ "[CheckState cid, Accept c]"]) simp
      qed
    qed
  qed
qed

lemma framed_event_cb:
  "framed p effs p' \<Longrightarrow> framed p effs (event_cb now ev src ts cid kw p')"
  by (simp add: framed_def event_cb_fields)

lemma dispatch_framed:
  assumes "dispatch e res cid p = Inr p2 \<or> dispatch e res cid p = Inl (m, p2)"
  shows "\<exists>effs. framed p effs p2 \<and> list_all command_effect effs"
  using dispatch_appends [OF assms] by (auto simp: framed_def)

lemma parse_command_framed:
  "\<exists>effs. framed p (ParseCommand res # effs) (parse_command e res p)
      \<and> list_all command_effect effs"
proof -
  let ?p = "emit (ParseCommand res) p"
  have base: "framed p [ParseCommand res] ?p" by (simp add: framed_def emit_def)
  show ?thesis
  proof (cases "status_code res = 200")
    case False
    then have "parse_command e res p = ?p" by (simp add: parse_command_def)
    with base show ?thesis by (intro exI [of _ "[]"]) simp
  next
    case True
    note ok = this
    show ?thesis
    proof (cases "command_id_of e res")
      case None
      with ok have "parse_command e res p
         = event_cb (time_response e) REJECTED CONNECT None None
             [(''reason'', PStr ''Invalid Command-Id header'')] ?p"
        by (simp add: parse_command_def)
      with framed_event_cb [OF base] show ?thesis by (intro exI [of _ "[]"]) simp
    next
      case (Some cid)
      show ?thesis
      proof (cases "initialised p")
        case False
        have "framed p [ParseCommand res] (?p\<lparr>API_ok := False\<rparr>)"
          using base by (simp add: framed_def)
        moreover from False ok Some have "parse_command e res p
           = event_cb (time_response e) REJECTED WUI None (Some cid)
               [(''reason'', PStr NOT_INITIALISED_MSG)] (?p\<lparr>API_ok := False\<rparr>)"
          by (simp add: parse_command_def emit_def is_initialised_def initialised_def)
        ultimately show ?thesis
          using framed_event_cb by (intro exI [of _ "[]"]) simp
      next
        case True
        then have init: "is_initialised ?p = (True, ?p)"
          by (simp add: is_initialised_def initialised_def emit_def)
        show ?thesis
        proof (cases "dispatch e res cid ?p")
          case (Inr p2)
          then obtain effs where f: "framed ?p effs p2" and c: "list_all command_effect effs"
            using dispatch_framed [of e res cid ?p p2] by blast
          from ok Some init Inr have "parse_command e res p = p2"
            by (simp add: parse_command_def)
          with f have "framed p (ParseCommand res # effs) (parse_command e res p)"
            by (simp add: framed_def emit_def)
          with c show ?thesis by blast
        next
          case (Inl mp)
          obtain m p2 where mp: "mp = (m, p2)" by (cases mp)
          with Inl obtain effs where f: "framed ?p effs p2" and c: "list_all command_effect effs"
            using dispatch_framed [of e res cid ?p p2 m] by blast
          from f have "framed p (ParseCommand res # effs) p2"
            by (simp add: framed_def emit_def)
          moreover from ok Some init Inl mp have "parse_command e res p
             = event_cb (time_response e) REJECTED CONNECT None (Some cid) [(''reason'', PStr m)] p2"
            by (simp add: parse_command_def)
          ultimately have "framed p (ParseCommand res # effs) (parse_command e res p)"
            using framed_event_cb by simp
          with c show ?thesis by blast
        qed
      qed
    qed
  qed
qed

lemma parsed_command_effects: "list_all command_effect effs \<Longrightarrow>
   concat (map (\<lambda>x. case x of ParseCommand r \<Rightarrow> [r] | _ \<Rightarrow> []) effs) = []"
  by (induction effs) (auto split: effect.splits)

lemma command_effect_not_http: "command_effect a \<Longrightarrow> \<not> is_http a"
  by (cases a) simp_all

lemma http_command_effects: "list_all command_effect effs \<Longrightarrow> filter is_http effs = []"
  by (induction effs) (auto simp: command_effect_not_http)

lemma parse_command_fields:
  "HTTP_ok (parse_command e res p) = HTTP_ok p"
  "TOKEN_ok (parse_command e res p) = TOKEN_ok p"
  "INTERNET_ok (parse_command e res p) = INTERNET_ok p"
  "token (parse_command e res p) = token p"
  "server (parse_command e res p) = server p"
  "running_loop (parse_command e res p) = running_loop p"
  "parsed (parse_command e res p) = parsed p @ [res]"
  "http_calls (parse_command e res p) = http_calls p"
  using parse_command_framed [of p res e]
  by (auto simp: framed_def parsed_def http_calls_def parsed_command_effects http_command_effects)

subsection \<open>Identity\<close>

text \<open>
  C6. Each identity field (serial number, fingerprint, printer type) is write-once: its setter
  raises an error when the field is not \<^verbatim>\<open>None\<close>, and then no new state exists, so the
  stored value is unchanged; when the field is \<^verbatim>\<open>None\<close> the setter stores the new value and
  changes nothing else.
\<close>

theorem identity_write_once:
  "(sn p \<noteq> None \<longrightarrow> set_sn v p = Inl (RuntimeError ''Serial number is already set.''))
   \<and> (sn p = None \<longrightarrow> set_sn v p = Inr (p\<lparr>sn := v\<rparr>))
   \<and> (fingerprint p \<noteq> None
        \<longrightarrow> set_fingerprint v p = Inl (RuntimeError ''Fingerprint is already set.''))
   \<and> (fingerprint p = None \<longrightarrow> set_fingerprint v p = Inr (p\<lparr>fingerprint := v\<rparr>))
   \<and> (ptype p \<noteq> None \<longrightarrow> set_type t p = Inl (RuntimeError ''Printer type is already set.''))
   \<and> (ptype p = None \<longrightarrow> set_type t p = Inr (p\<lparr>ptype := t\<rparr>))"
  by (simp add: set_sn_def set_fingerprint_def set_type_def)

theorem identity_write_once_witness:
  "set_sn (Some ''SN2'') sample_printer = Inl (RuntimeError ''Serial number is already set.'')
   \<and> set_sn (Some ''SN2'') (sample_printer\<lparr>sn := None\<rparr>)
       = Inr (sample_printer\<lparr>sn := Some ''SN2''\<rparr>)
   \<and> set_fingerprint (Some ''f2'') sample_printer
       = Inl (RuntimeError ''Fingerprint is already set.'')
   \<and> set_fingerprint (Some ''f2'') (sample_printer\<lparr>fingerprint := None\<rparr>)
       = Inr (sample_printer\<lparr>fingerprint := Some ''f2''\<rparr>)
   \<and> set_type (Some (5, 1, 0)) sample_printer = Inl (RuntimeError ''Printer type is already set.'')
   \<and> set_type (Some (5, 1, 0)) (sample_printer\<lparr>ptype := None\<rparr>)
       = Inr (sample_printer\<lparr>ptype := Some (5, 1, 0)\<rparr>)"
  using identity_write_once [of sample_printer "Some ''SN2''" "Some (5, 1, 0)"]
    identity_write_once [of "sample_printer\<lparr>sn := None\<rparr>" "Some ''SN2''" "Some (5, 1, 0)"]
    identity_write_once [of "sample_printer\<lparr>fingerprint := None\<rparr>" "Some ''f2''" "Some (5, 1, 0)"]
    identity_write_once [of "sample_printer\<lparr>ptype := None\<rparr>" "Some ''SN2''" "Some (5, 1, 0)"]
    identity_write_once [of sample_printer "Some ''f2''" "Some (5, 1, 0)"]
  by (simp add: sample_printer_def)

text \<open>
  C9. \<^verbatim>\<open>is_initialised\<close> is not a pure query. When a field of the identity is missing
  (\<^verbatim>\<open>None\<close>; for the serial number and the fingerprint the empty string counts as missing
  too, by Python's truth value) it returns \<^verbatim>\<open>False\<close> and sets the API flag to false. When
  all three are present it returns \<^verbatim>\<open>True\<close> and leaves the printer, the flag included,
  as it was.
\<close>

theorem is_initialised_clears_api:
  "(sn p = None \<or> fingerprint p = None \<or> ptype p = None
      \<longrightarrow> is_initialised p = (False, p\<lparr>API_ok := False\<rparr>))
   \<and> (sn p = Some [] \<or> fingerprint p = Some []
      \<longrightarrow> is_initialised p = (False, p\<lparr>API_ok := False\<rparr>))
   \<and> (truthy (sn p) \<and> truthy (fingerprint p) \<and> ptype p \<noteq> None
      \<longrightarrow> is_initialised p = (True, p))"
  by (auto simp: is_initialised_def initialised_def truthy_def)

theorem is_initialised_clears_api_witness:
  "is_initialised (sample_printer\<lparr>fingerprint := None\<rparr>)
     = (False, sample_printer\<lparr>fingerprint := None, API_ok := False\<rparr>)
   \<and> is_initialised (sample_printer\<lparr>sn := Some []\<rparr>)
     = (False, sample_printer\<lparr>sn := Some [], API_ok := False\<rparr>)
   \<and> is_initialised sample_printer = (True, sample_printer)"
  using is_initialised_clears_api [of "sample_printer\<lparr>fingerprint := None\<rparr>"]
    is_initialised_clears_api [of "sample_printer\<lparr>sn := Some []\<rparr>"]
    is_initialised_clears_api [of sample_printer]
  by (simp add: sample_printer_def truthy_def)

subsection \<open>Telemetry of a printer that is not initialised\<close>

text \<open>
  C10. When \<^verbatim>\<open>telemetry\<close> is called with a token set and the printer not initialised, the
  sample is still put on the queue, but it carries the state and the timestamp only: the
  caller's keyword arguments, the job id and the fields of the download are all left out.
  (The API flag is cleared on the way, by \<^verbatim>\<open>is_initialised\<close>.)
\<close>

theorem telemetry_not_initialised:
  "truthy (token p) \<and> \<not> initialised p
   \<longrightarrow> telemetry now st timestamp kwargs p
       = queue_put (Telemetry st (default_timestamp timestamp now) []) (p\<lparr>API_ok := False\<rparr>)"
  by (simp add: telemetry_def is_initialised_def Telemetry_init_def)

theorem telemetry_not_initialised_witness:
  "truthy (token (sample_printer\<lparr>sn := None, download_current := Some sample_download\<rparr>))
   \<and> \<not> initialised (sample_printer\<lparr>sn := None, download_current := Some sample_download\<rparr>)
   \<and> queue (telemetry 1000 READY (Some 999) [(''temp_nozzle'', PInt 215)]
        (sample_printer\<lparr>sn := None, download_current := Some sample_download\<rparr>))
       = [Telemetry READY 999 []]"
  using telemetry_not_initialised
    [of "sample_printer\<lparr>sn := None, download_current := Some sample_download\<rparr>"
        1000 READY "Some 999" "[(''temp_nozzle'', PInt 215)]"]
  by (simp add: sample_printer_def truthy_def initialised_def queue_put_def default_timestamp_def)

subsection \<open>No server\<close>

text \<open>
  C8. When no server is configured, the loop drops the item at the head of the queue
  silently, whatever kind of item it is: the printer after the iteration is the printer before
  it without that item, so there is no HTTP call, nothing is put on the queue and no flag
  changes; and the loop goes on with the next iteration.
\<close>

theorem no_server_drops:
  "\<not> truthy (server p) \<and> queue p = it # rest
   \<longrightarrow> loop_iter e p = p\<lparr>queue := rest\<rparr>
       \<and> (running_loop p \<longrightarrow> run (Iterate e # sched) p = run sched (p\<lparr>queue := rest\<rparr>))"
  by (simp add: loop_iter_def)

theorem no_server_drops_witness:
  "loop_iter (sample_env (Raises ConnectionError))
     (sample_printer\<lparr>server := None, queue := [Register ''code'' 2800, Telemetry READY 999 []]\<rparr>)
   = sample_printer\<lparr>server := None, queue := [Telemetry READY 999 []]\<rparr>
   \<and> loop [Iterate (sample_env (Raises ConnectionError)), Iterate (sample_env (Raises ConnectionError))]
       (sample_printer\<lparr>server := None, queue := [Register ''code'' 2800, Telemetry READY 999 []]\<rparr>)
     = sample_printer\<lparr>server := None, queue := [], running_loop := True\<rparr>"
  using no_server_drops
    [of "sample_printer\<lparr>server := None, queue := [Register ''code'' 2800, Telemetry READY 999 []]\<rparr>"
        "Register ''code'' 2800" "[Telemetry READY 999 []]" "sample_env (Raises ConnectionError)" "[]"]
    no_server_drops
    [of "sample_printer\<lparr>server := None, running_loop := True,
           queue := [Register ''code'' 2800, Telemetry READY 999 []]\<rparr>"
        "Register ''code'' 2800" "[Telemetry READY 999 []]" "sample_env (Raises ConnectionError)"
        "[Iterate (sample_env (Raises ConnectionError))]"]
    no_server_drops
    [of "sample_printer\<lparr>server := None, running_loop := True, queue := [Telemetry READY 999 []]\<rparr>"
        "Telemetry READY 999 []" "[]" "sample_env (Raises ConnectionError)" "[]"]
  by (simp add: sample_printer_def truthy_def loop_def)

subsection \<open>Registration polls\<close>

text \<open>
  C4. A registration item carries a deadline: its creation time (the clock in whole seconds,
  \<^verbatim>\<open>int(time())\<close>) plus a fixed window of 30 minutes. When the loop receives a pending
  response (202) for it, the item is put back on the queue exactly once, at the end, if the
  deadline lies ahead, and is dropped if the deadline has passed.
\<close>

theorem poll_requeue:
  "r_timeout (Register_init now code) = py_trunc now + 30 * 60
   \<and> (truthy (server p) \<and> queue p = Register code t # rest
        \<and> outcome e = Response res \<and> status_code res = 202
      \<longrightarrow> queue (loop_iter e p)
          = (if of_int t > time_response e then rest @ [Register code t] else rest))"
  by (simp add: Register_init_def CODE_TIMEOUT_def loop_iter_def exchange_def get_token_def
      status_flags_def queue_put_def emit_def Let_def)

theorem poll_requeue_witness:
  "r_timeout (Register_init 1000 ''code'') = 2800
   \<and> queue (loop_iter (sample_env (Response (sample_response 202 [])))
        (sample_printer\<lparr>token := None, queue := [Register ''code'' 2800, Event INFO CONNECT 999 None []]\<rparr>))
     = [Event INFO CONNECT 999 None [], Register ''code'' 2800]
   \<and> queue (loop_iter (sample_env (Response (sample_response 202 [])))
        (sample_printer\<lparr>token := None, queue := [Register ''code'' 1001, Event INFO CONNECT 999 None []]\<rparr>))
     = [Event INFO CONNECT 999 None []]"
  using poll_requeue
    [of 1000 "''code''"
        "sample_printer\<lparr>token := None, queue := [Register ''code'' 2800, Event INFO CONNECT 999 None []]\<rparr>"
        2800 "[Event INFO CONNECT 999 None []]" "sample_env (Response (sample_response 202 []))"
        "sample_response 202 []"]
    poll_requeue
    [of 1000 "''code''"
        "sample_printer\<lparr>token := None, queue := [Register ''code'' 1001, Event INFO CONNECT 999 None []]\<rparr>"
        1001 "[Event INFO CONNECT 999 None []]" "sample_env (Response (sample_response 202 []))"
        "sample_response 202 []"]
  by (simp add: sample_printer_def sample_env_def sample_response_def truthy_def py_trunc_def)

subsection \<open>Responses without a usable command\<close>

text \<open>
  C2. For a response with status 200 handled by \<^verbatim>\<open>parse_command\<close>: if the header
  \<^verbatim>\<open>Command-Id\<close> is missing or is not an integer, a REJECTED event with the reason
  "Invalid Command-Id header" is handed to \<^verbatim>\<open>event_cb\<close>, and nothing of the content is
  parsed: the trace grows by the call of \<^verbatim>\<open>parse_command\<close> alone. Otherwise, if the
  identity is not initialised, a REJECTED event with that command id and the fixed reason is
  handed to \<^verbatim>\<open>event_cb\<close>, again with no parsing of the content. With a token set, as
  it is whenever the loop calls \<^verbatim>\<open>parse_command\<close>, \<^verbatim>\<open>event_cb\<close> puts the event
  on the queue.
\<close>

theorem invalid_command_id:
  "status_code res = 200
   \<longrightarrow> ((headers_get (headers res) ''Command-Id'' = None
          \<or> (\<exists>h. headers_get (headers res) ''Command-Id'' = Some h \<and> py_int (int_max_str_digits e) h = None))
        \<longrightarrow> parse_command e res p
            = event_cb (time_response e) REJECTED CONNECT None None
                [(''reason'', PStr ''Invalid Command-Id header'')] (emit (ParseCommand res) p)
          \<and> trace (parse_command e res p) = trace p @ [ParseCommand res]
          \<and> (truthy (token p)
              \<longrightarrow> queue (parse_command e res p)
                  = queue p @ [Event REJECTED CONNECT (time_response e) None
                                (with_job_id p [(''reason'', PStr ''Invalid Command-Id header'')])]))
     \<and> (\<forall>h command_id.
          headers_get (headers res) ''Command-Id'' = Some h \<and> py_int (int_max_str_digits e) h = Some command_id
          \<and> \<not> initialised p
        \<longrightarrow> parse_command e res p
            = event_cb (time_response e) REJECTED WUI None (Some command_id)
                [(''reason'', PStr NOT_INITIALISED_MSG)]
                (emit (ParseCommand res) p\<lparr>API_ok := False\<rparr>)
          \<and> trace (parse_command e res p) = trace p @ [ParseCommand res]
          \<and> (truthy (token p)
              \<longrightarrow> queue (parse_command e res p)
                  = queue p @ [Event REJECTED WUI (time_response e) (Some command_id)
                                (with_job_id p [(''reason'', PStr NOT_INITIALISED_MSG)])]))"
  by (auto simp: parse_command_def command_id_of_def Let_def event_cb_fields event_cb_queue
      is_initialised_def initialised_def emit_def default_timestamp_def with_job_id_def)

theorem invalid_command_id_witness:
  "queue (parse_command (sample_env (Response (sample_response 200 [(''Command-Id'', ''seven'')])))
            (sample_response 200 [(''Command-Id'', ''seven'')]) sample_printer)
     = [Event REJECTED CONNECT 1001 None
          [(''reason'', PStr ''Invalid Command-Id header''), (''job_id'', PInt 42)]]
   \<and> trace (parse_command (sample_env (Response (sample_response 200 [(''Command-Id'', ''seven'')])))
            (sample_response 200 [(''Command-Id'', ''seven'')]) sample_printer)
     = [ParseCommand (sample_response 200 [(''Command-Id'', ''seven'')])]
   \<and> queue (parse_command (sample_env (Response (sample_response 200 [(''Command-Id'', ''7'')])))
            (sample_response 200 [(''Command-Id'', ''7'')]) (sample_printer\<lparr>sn := None\<rparr>))
     = [Event REJECTED WUI 1001 (Some 7)
          [(''reason'', PStr ''Printer has not been initialized properly''), (''job_id'', PInt 42)]]
   \<and> queue (parse_command
            (sample_env (Response (sample_response 200 [(''Command-Id'', [CHR 0x1F, CHR ''7''])])))
            (sample_response 200 [(''Command-Id'', [CHR 0x1F, CHR ''7''])])
            (sample_printer\<lparr>sn := None\<rparr>))
     = [Event REJECTED CONNECT 1001 None
          [(''reason'', PStr ''Invalid Command-Id header''), (''job_id'', PInt 42)]]
   \<and> queue (parse_command
            (sample_env (Response (sample_response 200 [(''Command-Id'', [CHR 0xA0, CHR ''7''])])))
            (sample_response 200 [(''Command-Id'', [CHR 0xA0, CHR ''7''])])
            (sample_printer\<lparr>sn := None\<rparr>))
     = [Event REJECTED WUI 1001 (Some 7)
          [(''reason'', PStr ''Printer has not been initialized properly''), (''job_id'', PInt 42)]]"
  using invalid_command_id
    [of "sample_response 200 [(''Command-Id'', ''seven'')]"
        "sample_env (Response (sample_response 200 [(''Command-Id'', ''seven'')]))" sample_printer]
    invalid_command_id
    [of "sample_response 200 [(''Command-Id'', ''7'')]"
        "sample_env (Response (sample_response 200 [(''Command-Id'', ''7'')]))"
        "sample_printer\<lparr>sn := None\<rparr>"]
    invalid_command_id
    [of "sample_response 200 [(''Command-Id'', [CHR 0x1F, CHR ''7''])]"
        "sample_env (Response (sample_response 200 [(''Command-Id'', [CHR 0x1F, CHR ''7''])]))"
        "sample_printer\<lparr>sn := None\<rparr>"]
    invalid_command_id
    [of "sample_response 200 [(''Command-Id'', [CHR 0xA0, CHR ''7''])]"
        "sample_env (Response (sample_response 200 [(''Command-Id'', [CHR 0xA0, CHR ''7''])]))"
        "sample_printer\<lparr>sn := None\<rparr>"]
  by (simp add: sample_printer_def sample_env_def sample_response_def truthy_def initialised_def
      headers_get_def lower_char_def py_int_def py_unsigned_def py_strip_def py_isspace_def
      digit_val_def with_job_id_def NOT_INITIALISED_MSG_def event_cb_def is_initialised_def queue_put_def
      emit_def Event_init_def default_timestamp_def)

subsection \<open>Which responses are parsed for commands\<close>

text \<open>
  C7. In the loop, the response to every telemetry POST is passed to \<^verbatim>\<open>parse_command\<close>,
  and the response to an event POST never is: an iteration that sends an event records the
  POST and nothing else, so no command is checked or accepted.
\<close>

theorem telemetry_parsed_event_not:
  "truthy (server p) \<and> truthy (token p) \<and> outcome e = Response res
   \<longrightarrow> (queue p = Telemetry st ts kw # rest \<longrightarrow> parsed (loop_iter e p) = parsed p @ [res])
     \<and> (queue p = Event ev src ts cid kw # rest
        \<longrightarrow> parsed (loop_iter e p) = parsed p
          \<and> trace (loop_iter e p)
              = trace p @ [HttpPost (server_url p @ ''/p/events'') (make_headers e (Some ts) p)
                             (Event ev src ts cid kw)]
          \<and> queue (loop_iter e p) = rest)"
proof (intro impI conjI; elim conjE)
  assume a: "truthy (server p)" "truthy (token p)" "outcome e = Response res"
  {
    assume q: "queue p = Telemetry st ts kw # rest"
    let ?p1 = "emit (HttpPost (server_url p @ ''/p/telemetry'') (make_headers e (Some ts) p)
                 (Telemetry st ts kw)) (p\<lparr>queue := rest\<rparr>)"
    from a q have "loop_iter e p = status_flags res (parse_command e res ?p1)"
      by (simp add: loop_iter_def exchange_def post_def make_headers_def server_url_def)
    moreover have "parsed (status_flags res x) = parsed x" for x
      by (simp add: status_flags_def parsed_def Let_def)
    moreover have "parsed ?p1 = parsed p" by (simp add: parsed_def emit_def)
    ultimately show "parsed (loop_iter e p) = parsed p @ [res]"
      by (simp add: parse_command_fields)
  }
  {
    assume q: "queue p = Event ev src ts cid kw # rest"
    let ?p1 = "emit (HttpPost (server_url p @ ''/p/events'') (make_headers e (Some ts) p)
                 (Event ev src ts cid kw)) (p\<lparr>queue := rest\<rparr>)"
    from a q have eq: "loop_iter e p = status_flags res ?p1"
      by (simp add: loop_iter_def exchange_def post_def make_headers_def server_url_def)
    show "parsed (loop_iter e p) = parsed p"
      by (simp add: eq status_flags_def parsed_def Let_def emit_def)
    show "trace (loop_iter e p)
              = trace p @ [HttpPost (server_url p @ ''/p/events'') (make_headers e (Some ts) p)
                             (Event ev src ts cid kw)]"
      by (simp add: eq status_flags_def Let_def emit_def)
    show "queue (loop_iter e p) = rest"
      by (simp add: eq status_flags_def Let_def emit_def)
  }
qed

theorem telemetry_parsed_event_not_witness:
  "parsed (loop_iter (sample_env (Response command_response))
             (sample_printer\<lparr>queue := [Telemetry READY 999 []]\<rparr>)) = [command_response]
   \<and> parsed (loop_iter (sample_env (Response command_response))
             (sample_printer\<lparr>queue := [Event INFO CONNECT 999 None []]\<rparr>)) = []
   \<and> queue (loop_iter (sample_env (Response command_response))
             (sample_printer\<lparr>queue := [Event INFO CONNECT 999 None []]\<rparr>)) = []"
  using telemetry_parsed_event_not
    [of "sample_printer\<lparr>queue := [Telemetry READY 999 []]\<rparr>"
        "sample_env (Response command_response)" command_response READY 999 "[]" "[]"]
    telemetry_parsed_event_not
    [of "sample_printer\<lparr>queue := [Event INFO CONNECT 999 None []]\<rparr>"
        "sample_env (Response command_response)" command_response _ 999 "[]" "[]" INFO CONNECT None]
  by (simp add: sample_printer_def sample_env_def truthy_def parsed_def)

subsection \<open>Without a token\<close>

lemma loop_iter_no_token:
  assumes "\<not> truthy (token p)" "queue p = it # rest" "\<not> is_register it"
  shows "loop_iter e p = p\<lparr>queue := rest\<rparr>"
  using assms by (cases it) (simp_all add: loop_iter_def exchange_def Let_def)

lemma loop_iter_empty: "queue p = [] \<Longrightarrow> loop_iter e p = p"
  by (simp add: loop_iter_def)

lemma run_no_token:
  assumes "list_all (\<lambda>s. \<not> pushes_register s) sched"
    and "\<not> truthy (token p)" and "list_all (\<lambda>i. \<not> is_register i) (queue p)"
  shows "http_calls (run sched p) = http_calls p \<and> token (run sched p) = token p"
  using assms
proof (induction sched arbitrary: p)
  case Nil
  then show ?case by simp
next
  case (Cons s sched)
  show ?case
  proof (cases s)
    case (Push it)
    with Cons.prems have "\<not> is_register it" by simp
    with Cons.prems have "http_calls (run sched (queue_put it p)) = http_calls (queue_put it p)
        \<and> token (run sched (queue_put it p)) = token (queue_put it p)"
      by (intro Cons.IH) (simp_all add: queue_put_def)
    with Push show ?thesis by (simp add: queue_put_def http_calls_def)
  next
    case Stop
    from Cons.prems have "http_calls (run sched (p\<lparr>running_loop := False\<rparr>))
          = http_calls (p\<lparr>running_loop := False\<rparr>)
        \<and> token (run sched (p\<lparr>running_loop := False\<rparr>)) = token (p\<lparr>running_loop := False\<rparr>)"
      by (intro Cons.IH) simp_all
    with Stop show ?thesis by (simp add: http_calls_def)
  next
    case (Iterate e)
    have step: "\<exists>q. loop_iter e p = p\<lparr>queue := q\<rparr> \<and> list_all (\<lambda>i. \<not> is_register i) q"
    proof (cases "queue p")
      case Nil
      then have "loop_iter e p = p\<lparr>queue := []\<rparr>" by (simp add: loop_iter_empty)
      then show ?thesis by (intro exI [of _ "[]"]) simp
    next
      case (Cons it rest)
      with Cons.prems(3) have "\<not> is_register it" "list_all (\<lambda>i. \<not> is_register i) rest"
        by simp_all
      with Cons Cons.prems(2) show ?thesis
        by (intro exI [of _ rest]) (simp add: loop_iter_no_token)
    qed
    then obtain q where q: "loop_iter e p = p\<lparr>queue := q\<rparr>" "list_all (\<lambda>i. \<not> is_register i) q"
      by blast
    from Cons.prems q have "http_calls (run sched (p\<lparr>queue := q\<rparr>)) = http_calls (p\<lparr>queue := q\<rparr>)
        \<and> token (run sched (p\<lparr>queue := q\<rparr>)) = token (p\<lparr>queue := q\<rparr>)"
      by (intro Cons.IH) simp_all
    moreover from Cons.prems have "http_calls (run sched p) = http_calls p
        \<and> token (run sched p) = token p"
      by (intro Cons.IH) simp_all
    ultimately show ?thesis using Iterate q by (simp add: http_calls_def)
  qed
qed

lemma handle_trace: "trace (handle x p) = trace p"
  by (cases x) simp_all

lemma status_flags_trace: "trace (status_flags res p) = trace p"
  by (simp add: status_flags_def Let_def)

lemma register_polled:
  assumes "truthy (server p)" "queue p = Register code t # rest"
  shows "http_calls (loop_iter e p)
     = http_calls p @ [HttpGet (server_url p @ ''/p/register'')
                         ((make_headers e None p)\<lparr>h_temporary_code := Some code\<rparr>)]"
proof -
  let ?get = "HttpGet (server_url p @ ''/p/register'')
                ((make_headers e None p)\<lparr>h_temporary_code := Some code\<rparr>)"
  let ?p1 = "emit ?get (p\<lparr>queue := rest\<rparr>)"
  from assms have gt: "get_token e code (p\<lparr>queue := rest\<rparr>) = Inr (outcome e, ?p1)"
    by (simp add: get_token_def make_headers_def server_url_def)
  have "\<exists>effs. trace (loop_iter e p) = trace p @ ?get # effs \<and> filter is_http effs = []"
  proof (cases "outcome e")
    case (Raises x)
    with assms gt have "loop_iter e p = handle x ?p1"
      by (simp add: loop_iter_def exchange_def Let_def)
    then show ?thesis by (intro exI [of _ "[]"]) (simp add: handle_trace emit_def)
  next
    case (Response res)
    show ?thesis
    proof (cases "status_code res = 200")
      case False
      with assms gt Response have "loop_iter e p = status_flags res ?p1
          \<or> loop_iter e p = status_flags res (emit (Sleep 1) (queue_put (Register code t) ?p1))"
        by (auto simp: loop_iter_def exchange_def Let_def)
      then show ?thesis
      proof
        assume "loop_iter e p = status_flags res ?p1"
        then show ?thesis by (intro exI [of _ "[]"]) (simp add: status_flags_trace emit_def)
      next
        assume "loop_iter e p = status_flags res (emit (Sleep 1) (queue_put (Register code t) ?p1))"
        then show ?thesis
          by (intro exI [of _ "[Sleep 1]"]) (simp add: status_flags_trace emit_def queue_put_def)
      qed
    next
      case True
      show ?thesis
      proof (cases "headers_get (headers res) ''Token''")
        case None
        with assms gt Response True have "loop_iter e p = handle OtherException ?p1"
          by (simp add: loop_iter_def exchange_def Let_def)
        then show ?thesis by (intro exI [of _ "[]"]) (simp add: emit_def)
      next
        case (Some tok)
        let ?p2 = "emit (RegisterHandler tok) (?p1\<lparr>token := Some tok, TOKEN_ok := True\<rparr>)"
        show ?thesis
        proof (cases "handler_raises e tok")
          case None
          with assms gt Response True Some have "loop_iter e p = status_flags res ?p2"
            by (simp add: loop_iter_def exchange_def Let_def)
          then show ?thesis
            by (intro exI [of _ "[RegisterHandler tok]"]) (simp add: status_flags_trace emit_def)
        next
          case (Some x)
          with assms gt Response True \<open>headers_get (headers res) ''Token'' = Some tok\<close>
          have "loop_iter e p = handle x ?p2"
            by (simp add: loop_iter_def exchange_def Let_def)
          then show ?thesis
            by (intro exI [of _ "[RegisterHandler tok]"]) (simp add: handle_trace emit_def)
        qed
      qed
    qed
  qed
  then show ?thesis by (auto simp: http_calls_def)
qed

text \<open>
  C1, as the code has it. With no token set, every event and every telemetry sample that the
  loop pops is dropped without a request; so for every schedule of puts and iterations in which
  no registration item is on the queue or put on it, the loop makes no HTTP call at all, and
  the token stays unset. A registration item is the exception: when a server is configured,
  the iteration that pops one sends \<^verbatim>\<open>GET /p/register\<close> with its code, exactly one
  request, whether or not a token is set.
\<close>

theorem no_token_no_http:
  "(\<not> truthy (token p)
    \<longrightarrow> (queue p = it # rest \<and> \<not> is_register it \<longrightarrow> loop_iter e p = p\<lparr>queue := rest\<rparr>)
      \<and> (list_all (\<lambda>i. \<not> is_register i) (queue p)
          \<and> list_all (\<lambda>s. \<not> pushes_register s) sched
         \<longrightarrow> http_calls (loop sched p) = http_calls p \<and> token (loop sched p) = token p))
   \<and> (truthy (server p) \<and> queue p = Register code t # rest
      \<longrightarrow> http_calls (loop_iter e p)
          = http_calls p @ [HttpGet (server_url p @ ''/p/register'')
                              ((make_headers e None p)\<lparr>h_temporary_code := Some code\<rparr>)])"
proof (intro impI conjI; (elim conjE)?)
  assume "\<not> truthy (token p)" "queue p = it # rest" "\<not> is_register it"
  then show "loop_iter e p = p\<lparr>queue := rest\<rparr>" by (rule loop_iter_no_token)
next
  assume a: "\<not> truthy (token p)" "list_all (\<lambda>i. \<not> is_register i) (queue p)"
    "list_all (\<lambda>s. \<not> pushes_register s) sched"
  then have "http_calls (run sched (p\<lparr>running_loop := True\<rparr>)) = http_calls (p\<lparr>running_loop := True\<rparr>)
     \<and> token (run sched (p\<lparr>running_loop := True\<rparr>)) = token (p\<lparr>running_loop := True\<rparr>)"
    by (intro run_no_token) simp_all
  then show "http_calls (loop sched p) = http_calls p" "token (loop sched p) = token p"
    by (simp_all add: loop_def http_calls_def)
next
  assume "truthy (server p)" "queue p = Register code t # rest"
  then show "http_calls (loop_iter e p)
          = http_calls p @ [HttpGet (server_url p @ ''/p/register'')
                              ((make_headers e None p)\<lparr>h_temporary_code := Some code\<rparr>)]"
    by (rule register_polled)
qed

theorem no_token_no_http_witness:
  "loop_iter (sample_env (Response command_response))
      (sample_printer\<lparr>token := None, queue := [Telemetry READY 999 [], Event INFO CONNECT 999 None []]\<rparr>)
     = sample_printer\<lparr>token := None, queue := [Event INFO CONNECT 999 None []]\<rparr>
   \<and> http_calls (loop [Push (Telemetry READY 999 []), Iterate (sample_env (Response command_response)),
                       Push (Event INFO CONNECT 999 None []),
                       Iterate (sample_env (Response command_response)),
                       Iterate (sample_env (Raises RequestException))]
         (sample_printer\<lparr>token := None\<rparr>)) = []
   \<and> http_calls (loop_iter (sample_env (Raises ConnectionError))
         (sample_printer\<lparr>token := None, queue := [Register ''code'' 2800]\<rparr>))
     = [HttpGet ''http://server/p/register''
          \<lparr>h_fingerprint = Some ''fp'', h_timestamp = 1000, h_token = None,
           h_clock_adjusted = False, h_temporary_code = Some ''code''\<rparr>]
   \<and> http_calls (loop_iter (sample_env (Response (sample_response 202 [])))
         (sample_printer\<lparr>queue := [Register ''code'' 2800]\<rparr>))
     = [HttpGet ''http://server/p/register''
          \<lparr>h_fingerprint = Some ''fp'', h_timestamp = 1000, h_token = Some ''tok'',
           h_clock_adjusted = False, h_temporary_code = Some ''code''\<rparr>]"
  using no_token_no_http
    [where p = "sample_printer\<lparr>token := None,
                  queue := [Telemetry READY 999 [], Event INFO CONNECT 999 None []]\<rparr>"
       and it = "Telemetry READY 999 []" and rest = "[Event INFO CONNECT 999 None []]"
       and e = "sample_env (Response command_response)" and sched = "[]"
       and code = "[]" and t = 0]
    no_token_no_http
    [where p = "sample_printer\<lparr>token := None\<rparr>" and it = "Telemetry READY 999 []"
       and rest = "[]" and e = "sample_env (Response command_response)"
       and sched = "[Push (Telemetry READY 999 []), Iterate (sample_env (Response command_response)),
          Push (Event INFO CONNECT 999 None []),
          Iterate (sample_env (Response command_response)),
          Iterate (sample_env (Raises RequestException))]"
       and code = "[]" and t = 0]
    no_token_no_http
    [where p = "sample_printer\<lparr>token := None, queue := [Register ''code'' 2800]\<rparr>"
       and it = "Telemetry READY 999 []" and rest = "[]"
       and e = "sample_env (Raises ConnectionError)" and sched = "[]"
       and code = "''code''" and t = 2800]
    no_token_no_http
    [where p = "sample_printer\<lparr>queue := [Register ''code'' 2800]\<rparr>"
       and it = "Telemetry READY 999 []" and rest = "[]"
       and e = "sample_env (Response (sample_response 202 []))" and sched = "[]"
       and code = "''code''" and t = 2800]
  by (simp add: sample_printer_def sample_env_def truthy_def http_calls_def make_headers_def
      server_url_def py_trunc_def TIMESTAMP_PRECISION_def)

text \<open>
  With no token set and one registration item put on the queue, the loop sends
  \<^verbatim>\<open>GET /p/register\<close>.
\<close>

theorem no_token_counterexample:
  "token (sample_printer\<lparr>token := None\<rparr>) = None
   \<and> http_calls (sample_printer\<lparr>token := None\<rparr>) = []
   \<and> http_calls (loop [Push (Register ''code'' 2800),
                       Iterate (sample_env (Response (sample_response 202 [])))]
         (sample_printer\<lparr>token := None\<rparr>))
     = [HttpGet ''http://server/p/register''
          \<lparr>h_fingerprint = Some ''fp'', h_timestamp = 1000, h_token = None,
           h_clock_adjusted = False, h_temporary_code = Some ''code''\<rparr>]"
  by (simp add: sample_printer_def sample_env_def sample_response_def loop_def loop_iter_def
      queue_put_def exchange_def get_token_def make_headers_def server_url_def truthy_def
      emit_def status_flags_def http_calls_def py_trunc_def TIMESTAMP_PRECISION_def Let_def)

subsection \<open>Flags after an exchange\<close>

lemma status_flags_fields:
  "API_ok (status_flags res p) = (status_code res < 400)"
  "TOKEN_ok (status_flags res p) = (status_code res \<noteq> 401 \<and> TOKEN_ok p)"
  "HTTP_ok (status_flags res p) = HTTP_ok p"
  "INTERNET_ok (status_flags res p) = INTERNET_ok p"
  by (auto simp: status_flags_def Let_def)

text \<open>
  C5, as the code has it. After an exchange that reaches the handling of the status, which is
  every telemetry or event POST that returns a response and every registration poll whose
  response is not a 200 without a \<^verbatim>\<open>Token\<close> header or with a handler that raises, the
  API flag is true when the status is below 400 and false when it is 400 or above; a 401 also
  clears the TOKEN flag (which a successful registration has set); and the TRANSPORT flag
  (\<^verbatim>\<open>errors.HTTP\<close>) is as it was. A registration response 200 without a
  \<^verbatim>\<open>Token\<close> header raises instead: the API, TOKEN and TRANSPORT flags stay as they were
  and the INTERNET flag is cleared.
\<close>

theorem status_sets_flags:
  "truthy (server p) \<and> queue p = it # rest \<and> outcome e = Response res
   \<longrightarrow> ((\<not> is_register it \<and> truthy (token p))
          \<or> (is_register it \<and> status_code res \<noteq> 200)
          \<or> (is_register it \<and> status_code res = 200
              \<and> (\<exists>tok. headers_get (headers res) ''Token'' = Some tok \<and> handler_raises e tok = None))
        \<longrightarrow> API_ok (loop_iter e p) = (status_code res < 400)
          \<and> TOKEN_ok (loop_iter e p)
              = (status_code res \<noteq> 401 \<and> (TOKEN_ok p \<or> (is_register it \<and> status_code res = 200)))
          \<and> HTTP_ok (loop_iter e p) = HTTP_ok p)
     \<and> (is_register it \<and> status_code res = 200 \<and> headers_get (headers res) ''Token'' = None
        \<longrightarrow> API_ok (loop_iter e p) = API_ok p \<and> TOKEN_ok (loop_iter e p) = TOKEN_ok p
          \<and> HTTP_ok (loop_iter e p) = HTTP_ok p \<and> \<not> INTERNET_ok (loop_iter e p))"
proof (intro impI, elim conjE)
  assume a: "truthy (server p)" "queue p = it # rest" "outcome e = Response res"
  show "((\<not> is_register it \<and> truthy (token p))
          \<or> (is_register it \<and> status_code res \<noteq> 200)
          \<or> (is_register it \<and> status_code res = 200
              \<and> (\<exists>tok. headers_get (headers res) ''Token'' = Some tok \<and> handler_raises e tok = None))
        \<longrightarrow> API_ok (loop_iter e p) = (status_code res < 400)
          \<and> TOKEN_ok (loop_iter e p)
              = (status_code res \<noteq> 401 \<and> (TOKEN_ok p \<or> (is_register it \<and> status_code res = 200)))
          \<and> HTTP_ok (loop_iter e p) = HTTP_ok p)
     \<and> (is_register it \<and> status_code res = 200 \<and> headers_get (headers res) ''Token'' = None
        \<longrightarrow> API_ok (loop_iter e p) = API_ok p \<and> TOKEN_ok (loop_iter e p) = TOKEN_ok p
          \<and> HTTP_ok (loop_iter e p) = HTTP_ok p \<and> \<not> INTERNET_ok (loop_iter e p))"
  proof (cases it)
    case (Telemetry st ts kw)
    show ?thesis
    proof (cases "truthy (token p)")
      case False
      with Telemetry show ?thesis by simp
    next
      case True
      with a Telemetry have "loop_iter e p = status_flags res (parse_command e res
          (emit (HttpPost (server_url p @ ''/p/telemetry'') (make_headers e (Some ts) p) it)
              (p\<lparr>queue := rest\<rparr>)))"
        by (simp add: loop_iter_def exchange_def post_def make_headers_def server_url_def)
      with Telemetry True show ?thesis
        by (simp add: status_flags_fields parse_command_fields emit_fields)
    qed
  next
    case (Event ev src ts cid kw)
    show ?thesis
    proof (cases "truthy (token p)")
      case False
      with Event show ?thesis by simp
    next
      case True
      with a Event have "loop_iter e p = status_flags res
          (emit (HttpPost (server_url p @ ''/p/events'') (make_headers e (Some ts) p) it)
              (p\<lparr>queue := rest\<rparr>))"
        by (simp add: loop_iter_def exchange_def post_def make_headers_def server_url_def)
      with Event True show ?thesis
        by (simp add: status_flags_fields emit_fields)
    qed
  next
    case (Register code t)
    let ?p1 = "emit (HttpGet (server_url p @ ''/p/register'')
                  ((make_headers e None p)\<lparr>h_temporary_code := Some code\<rparr>)) (p\<lparr>queue := rest\<rparr>)"
    from a have gt: "get_token e code (p\<lparr>queue := rest\<rparr>) = Inr (Response res, ?p1)"
      by (simp add: get_token_def make_headers_def server_url_def)
    show ?thesis
    proof (cases "status_code res = 200")
      case False
      with a Register gt have "loop_iter e p = status_flags res ?p1
          \<or> loop_iter e p = status_flags res (emit (Sleep 1) (queue_put it ?p1))"
        by (auto simp: loop_iter_def exchange_def Let_def)
      with Register False show ?thesis
        by (auto simp: status_flags_fields emit_fields queue_put_def emit_def)
    next
      case True
      note ok = this
      show ?thesis
      proof (cases "headers_get (headers res) ''Token''")
        case None
        with a Register gt ok have "loop_iter e p = ?p1\<lparr>INTERNET_ok := False\<rparr>"
          by (simp add: loop_iter_def exchange_def Let_def)
        with Register ok None show ?thesis by (simp add: emit_def)
      next
        case (Some tok)
        show ?thesis
        proof (cases "handler_raises e tok")
          case None
          with a Register gt ok Some have "loop_iter e p = status_flags res
               (emit (RegisterHandler tok) (?p1\<lparr>token := Some tok, TOKEN_ok := True\<rparr>))"
            by (simp add: loop_iter_def exchange_def Let_def)
          with Register ok Some None show ?thesis
            by (simp add: status_flags_fields emit_def)
        next
          case (Some x)
          with Register ok \<open>headers_get (headers res) ''Token'' = Some tok\<close> show ?thesis by simp
        qed
      qed
    qed
  qed
qed

theorem status_sets_flags_witness:
  "\<not> API_ok (loop_iter (sample_env (Response (sample_response 401 [])))
        (sample_printer\<lparr>queue := [Event INFO CONNECT 999 None []]\<rparr>))
   \<and> \<not> TOKEN_ok (loop_iter (sample_env (Response (sample_response 401 [])))
        (sample_printer\<lparr>queue := [Event INFO CONNECT 999 None []]\<rparr>))
   \<and> HTTP_ok (loop_iter (sample_env (Response (sample_response 401 [])))
        (sample_printer\<lparr>queue := [Event INFO CONNECT 999 None []]\<rparr>))
   \<and> API_ok (loop_iter (sample_env (Response (sample_response 200 [(''Token'', ''secret'')])))
        (sample_printer\<lparr>token := None, API_ok := False, TOKEN_ok := False,
           queue := [Register ''code'' 2800]\<rparr>))
   \<and> TOKEN_ok (loop_iter (sample_env (Response (sample_response 200 [(''Token'', ''secret'')])))
        (sample_printer\<lparr>token := None, API_ok := False, TOKEN_ok := False,
           queue := [Register ''code'' 2800]\<rparr>))
   \<and> \<not> INTERNET_ok (loop_iter (sample_env (Response (sample_response 200 [])))
        (sample_printer\<lparr>token := None, API_ok := False, queue := [Register ''code'' 2800]\<rparr>))"
  using status_sets_flags
    [of "sample_printer\<lparr>queue := [Event INFO CONNECT 999 None []]\<rparr>"
        "Event INFO CONNECT 999 None []" "[]" "sample_env (Response (sample_response 401 []))"
        "sample_response 401 []"]
    status_sets_flags
    [of "sample_printer\<lparr>token := None, API_ok := False, TOKEN_ok := False,
           queue := [Register ''code'' 2800]\<rparr>"
        "Register ''code'' 2800" "[]"
        "sample_env (Response (sample_response 200 [(''Token'', ''secret'')]))"
        "sample_response 200 [(''Token'', ''secret'')]"]
    status_sets_flags
    [of "sample_printer\<lparr>token := None, API_ok := False, queue := [Register ''code'' 2800]\<rparr>"
        "Register ''code'' 2800" "[]" "sample_env (Response (sample_response 200 []))"
        "sample_response 200 []"]
  by (simp add: sample_printer_def sample_env_def sample_response_def truthy_def
      headers_get_def lower_char_def default_register_handler_def)

text \<open>
  A registration poll answered by 200 without a \<^verbatim>\<open>Token\<close> header: the status is below
  400, and the API flag, false before, is still false.
\<close>

theorem status_sets_flags_counterexample:
  "status_code (sample_response 200 []) < 400
   \<and> \<not> API_ok (loop_iter (sample_env (Response (sample_response 200 [])))
        (sample_printer\<lparr>token := None, API_ok := False, queue := [Register ''code'' 2800]\<rparr>))"
  by (simp add: sample_printer_def sample_env_def sample_response_def loop_iter_def
      exchange_def get_token_def make_headers_def server_url_def truthy_def emit_def
      headers_get_def Let_def)

subsection \<open>Dispatch on the content type\<close>

lemma accept_calls_event_cb:
  "accept_calls (event_cb now ev src ts cid kw p) = accept_calls p"
  by (simp add: accept_calls_def event_cb_fields)

lemma accept_calls_emit:
  "accept_calls (emit x p) = accept_calls p @ (case x of Accept c \<Rightarrow> [c] | _ \<Rightarrow> [])"
  by (simp add: accept_calls_def emit_def)

lemma accept_calls_call_accept:
  "call_accept e c p = Inr p2 \<or> call_accept e c p = Inl (m, p2)
   \<Longrightarrow> accept_calls p2 = accept_calls p @ [c]"
  by (auto simp: call_accept_def Let_def accept_calls_emit split: option.splits)

lemma parse_command_dispatch:
  assumes "status_code res = 200" "headers_get (headers res) ''Command-Id'' = Some h"
    "py_int (int_max_str_digits e) h = Some cid" "initialised p"
  shows "parse_command e res p
     = (case dispatch e res cid (emit (ParseCommand res) p) of
          Inr p2 \<Rightarrow> p2
        | Inl (msg, p2) \<Rightarrow>
            event_cb (time_response e) REJECTED CONNECT None (Some cid) [(''reason'', PStr msg)] p2)"
proof -
  from assms(4) have "is_initialised (emit (ParseCommand res) p) = (True, emit (ParseCommand res) p)"
    by (simp add: is_initialised_def initialised_def emit_def)
  with assms(1-3) show ?thesis
    by (simp add: parse_command_def command_id_of_def)
qed

text \<open>
  C3, as the code has it. For a 200 response with a valid \<^verbatim>\<open>Command-Id\<close>, an initialised
  identity and a \<^verbatim>\<open>Content-Type\<close> header, \<^verbatim>\<open>parse_command\<close> dispatches on the
  content type. For one that starts with \<^verbatim>\<open>application/json\<close> and a body that decodes to
  an object, \<^verbatim>\<open>accept\<close> is called, with the object's command, args and kwargs, exactly
  when \<^verbatim>\<open>check_state\<close> of the command id is true; a body that does not decode gives a
  REJECTED event with the text of the decoding error and no call of \<^verbatim>\<open>accept\<close>. For
  \<^verbatim>\<open>text/x.gcode\<close>, \<^verbatim>\<open>accept\<close> is called exactly when \<^verbatim>\<open>check_state\<close> is true,
  with the body text as the single argument of GCODE and \<^verbatim>\<open>force\<close> set to whether the
  \<^verbatim>\<open>Force\<close> header is "1". For any other content type a REJECTED event with the reason
  "Invalid command content type" is emitted and \<^verbatim>\<open>accept\<close> is not called.
\<close>

theorem dispatch_on_content_type:
  "status_code res = 200 \<and> headers_get (headers res) ''Command-Id'' = Some h
   \<and> py_int (int_max_str_digits e) h = Some cid \<and> initialised p
   \<and> headers_get (headers res) ''content-type'' = Some ct
   \<longrightarrow> (take (length ''application/json'') ct = ''application/json''
          \<and> json_body res = Inr (JObj kvs)
        \<longrightarrow> accept_calls (parse_command e res p)
            = accept_calls p
              @ (if check_state e cid
                 then [\<lparr>a_command_id = cid, a_command = dict_get kvs ''command'' (JStr []),
                        a_args = dict_get kvs ''args'' JNull,
                        a_kwargs = dict_get kvs ''kwargs'' JNull, a_force = None\<rparr>]
                 else []))
     \<and> (take (length ''application/json'') ct = ''application/json''
          \<and> json_body res = Inl msg
        \<longrightarrow> accept_calls (parse_command e res p) = accept_calls p
          \<and> parse_command e res p
             = event_cb (time_response e) REJECTED CONNECT None (Some cid)
                 [(''reason'', PStr msg)] (emit JsonDecode (emit (ParseCommand res) p)))
     \<and> (ct = ''text/x.gcode''
        \<longrightarrow> accept_calls (parse_command e res p)
            = accept_calls p
              @ (if check_state e cid
                 then [\<lparr>a_command_id = cid, a_command = JStr Command_GCODE_value,
                        a_args = JArr [JStr (text_body res)], a_kwargs = JNull,
                        a_force = Some (headers_get (headers res) ''Force'' = Some ''1'')\<rparr>]
                 else []))
     \<and> (take (length ''application/json'') ct \<noteq> ''application/json'' \<and> ct \<noteq> ''text/x.gcode''
        \<longrightarrow> accept_calls (parse_command e res p) = accept_calls p
          \<and> parse_command e res p
             = event_cb (time_response e) REJECTED CONNECT None (Some cid)
                 [(''reason'', PStr ''Invalid command content type'')]
                 (emit (ParseCommand res) p))"
proof (intro impI, elim conjE)
  assume a: "status_code res = 200" "headers_get (headers res) ''Command-Id'' = Some h"
    "py_int (int_max_str_digits e) h = Some cid" "initialised p"
    and ct: "headers_get (headers res) ''content-type'' = Some ct"
  let ?p = "emit (ParseCommand res) p"
  note pc = parse_command_dispatch [OF a]
  have p0: "accept_calls ?p = accept_calls p" by (simp add: accept_calls_emit)
  have json: "accept_calls (parse_command e res p)
            = accept_calls p
              @ (if check_state e cid
                 then [\<lparr>a_command_id = cid, a_command = dict_get kvs ''command'' (JStr []),
                        a_args = dict_get kvs ''args'' JNull,
                        a_kwargs = dict_get kvs ''kwargs'' JNull, a_force = None\<rparr>]
                 else [])"
    if j: "take (length ''application/json'') ct = ''application/json''"
      "json_body res = Inr (JObj kvs)"
  proof (cases "check_state e cid")
    case False
    with ct j have "dispatch e res cid ?p = Inr (emit (CheckState cid) (emit JsonDecode ?p))"
      by (simp add: dispatch_def Let_def)
    with False show ?thesis by (simp add: pc accept_calls_emit)
  next
    case True
    let ?c = "\<lparr>a_command_id = cid, a_command = dict_get kvs ''command'' (JStr []),
                a_args = dict_get kvs ''args'' JNull,
                a_kwargs = dict_get kvs ''kwargs'' JNull, a_force = None\<rparr>"
    let ?q = "emit (CheckState cid) (emit JsonDecode ?p)"
    from True ct j have d: "dispatch e res cid ?p = call_accept e ?c ?q"
      by (simp add: dispatch_def Let_def)
    have "accept_calls (parse_command e res p) = accept_calls ?q @ [?c]"
    proof (cases "call_accept e ?c ?q")
      case (Inr p2)
      with accept_calls_call_accept [of e ?c ?q p2] show ?thesis by (simp add: pc d)
    next
      case (Inl mp)
      obtain m p2 where "mp = (m, p2)" by (cases mp)
      with Inl accept_calls_call_accept [of e ?c ?q p2 m] show ?thesis
        by (simp add: pc d accept_calls_event_cb)
    qed
    with True show ?thesis by (simp add: accept_calls_emit)
  qed
  have bad: "accept_calls (parse_command e res p) = accept_calls p
          \<and> parse_command e res p
             = event_cb (time_response e) REJECTED CONNECT None (Some cid)
                 [(''reason'', PStr msg)] (emit JsonDecode (emit (ParseCommand res) p))"
    if j: "take (length ''application/json'') ct = ''application/json''" "json_body res = Inl msg"
  proof -
    from ct j have "dispatch e res cid ?p = Inl (msg, emit JsonDecode ?p)"
      by (simp add: dispatch_def Let_def)
    then show ?thesis by (simp add: pc accept_calls_event_cb accept_calls_emit)
  qed
  have gcode: "accept_calls (parse_command e res p)
            = accept_calls p
              @ (if check_state e cid
                 then [\<lparr>a_command_id = cid, a_command = JStr Command_GCODE_value,
                        a_args = JArr [JStr (text_body res)], a_kwargs = JNull,
                        a_force = Some (headers_get (headers res) ''Force'' = Some ''1'')\<rparr>]
                 else [])"
    if g: "ct = ''text/x.gcode''"
  proof (cases "check_state e cid")
    case False
    with ct g have "dispatch e res cid ?p = Inr (emit (CheckState cid) ?p)"
      by (simp add: dispatch_def Let_def)
    with False show ?thesis by (simp add: pc accept_calls_emit)
  next
    case True
    let ?c = "\<lparr>a_command_id = cid, a_command = JStr Command_GCODE_value,
                a_args = JArr [JStr (text_body res)], a_kwargs = JNull,
                a_force = Some (headers_get (headers res) ''Force'' = Some ''1'')\<rparr>"
    let ?q = "emit (CheckState cid) ?p"
    from True ct g have d: "dispatch e res cid ?p = call_accept e ?c ?q"
      by (simp add: dispatch_def Let_def)
    have "accept_calls (parse_command e res p) = accept_calls ?q @ [?c]"
    proof (cases "call_accept e ?c ?q")
      case (Inr p2)
      with accept_calls_call_accept [of e ?c ?q p2] show ?thesis by (simp add: pc d)
    next
      case (Inl mp)
      obtain m p2 where "mp = (m, p2)" by (cases mp)
      with Inl accept_calls_call_accept [of e ?c ?q p2 m] show ?thesis
        by (simp add: pc d accept_calls_event_cb)
    qed
    with True show ?thesis by (simp add: accept_calls_emit)
  qed
  have other: "accept_calls (parse_command e res p) = accept_calls p
          \<and> parse_command e res p
             = event_cb (time_response e) REJECTED CONNECT None (Some cid)
                 [(''reason'', PStr ''Invalid command content type'')]
                 (emit (ParseCommand res) p)"
    if o: "take (length ''application/json'') ct \<noteq> ''application/json''" "ct \<noteq> ''text/x.gcode''"
  proof -
    from ct o have "dispatch e res cid ?p = Inl (''Invalid command content type'', ?p)"
      by (simp add: dispatch_def)
    then show ?thesis by (simp add: pc accept_calls_event_cb accept_calls_emit)
  qed
  from json bad gcode other
  show "(take (length ''application/json'') ct = ''application/json''
          \<and> json_body res = Inr (JObj kvs)
        \<longrightarrow> accept_calls (parse_command e res p)
            = accept_calls p
              @ (if check_state e cid
                 then [\<lparr>a_command_id = cid, a_command = dict_get kvs ''command'' (JStr []),
                        a_args = dict_get kvs ''args'' JNull,
                        a_kwargs = dict_get kvs ''kwargs'' JNull, a_force = None\<rparr>]
                 else []))
     \<and> (take (length ''application/json'') ct = ''application/json''
          \<and> json_body res = Inl msg
        \<longrightarrow> accept_calls (parse_command e res p) = accept_calls p
          \<and> parse_command e res p
             = event_cb (time_response e) REJECTED CONNECT None (Some cid)
                 [(''reason'', PStr msg)] (emit JsonDecode (emit (ParseCommand res) p)))
     \<and> (ct = ''text/x.gcode''
        \<longrightarrow> accept_calls (parse_command e res p)
            = accept_calls p
              @ (if check_state e cid
                 then [\<lparr>a_command_id = cid, a_command = JStr Command_GCODE_value,
                        a_args = JArr [JStr (text_body res)], a_kwargs = JNull,
                        a_force = Some (headers_get (headers res) ''Force'' = Some ''1'')\<rparr>]
                 else []))
     \<and> (take (length ''application/json'') ct \<noteq> ''application/json'' \<and> ct \<noteq> ''text/x.gcode''
        \<longrightarrow> accept_calls (parse_command e res p) = accept_calls p
          \<and> parse_command e res p
             = event_cb (time_response e) REJECTED CONNECT None (Some cid)
                 [(''reason'', PStr ''Invalid command content type'')]
                 (emit (ParseCommand res) p))"
    by blast
qed

lemmas eval_defs = sample_printer_def sample_env_def sample_response_def command_response_def
  truthy_def initialised_def headers_get_def lower_char_def py_int_def py_unsigned_def
  py_strip_def py_isspace_def digit_val_def

theorem dispatch_on_content_type_witness:
  "accept_calls (parse_command (sample_env (Response command_response)) command_response
      sample_printer)
     = [\<lparr>a_command_id = 7, a_command = JStr ''SEND_INFO'', a_args = JNull, a_kwargs = JNull,
         a_force = None\<rparr>]
   \<and> accept_calls (parse_command
        (sample_env (Response (sample_response 200
           [(''Command-Id'', ''7''), (''Content-Type'', ''application/json'')])))
        (sample_response 200 [(''Command-Id'', ''7''), (''Content-Type'', ''application/json'')])
        sample_printer) = []
   \<and> accept_calls (parse_command
        (sample_env (Response (sample_response 200
           [(''Command-Id'', ''7''), (''Content-Type'', ''text/x.gcode''), (''Force'', ''1'')])))
        (sample_response 200
           [(''Command-Id'', ''7''), (''Content-Type'', ''text/x.gcode''), (''Force'', ''1'')])
        sample_printer)
     = [\<lparr>a_command_id = 7, a_command = JStr ''GCODE'', a_args = JArr [JStr ''G28''],
         a_kwargs = JNull, a_force = Some True\<rparr>]
   \<and> accept_calls (parse_command
        (sample_env (Response (sample_response 200
           [(''Command-Id'', ''7''), (''Content-Type'', ''text/plain'')])))
        (sample_response 200 [(''Command-Id'', ''7''), (''Content-Type'', ''text/plain'')])
        sample_printer) = []
   \<and> accept_calls (parse_command
        (sample_env (Response (sample_response 200
           [(''Command-Id'', [CHR 0xA0, CHR ''7'']), (''Content-Type'', ''text/x.gcode'')])))
        (sample_response 200
           [(''Command-Id'', [CHR 0xA0, CHR ''7'']), (''Content-Type'', ''text/x.gcode'')])
        sample_printer)
     = [\<lparr>a_command_id = 7, a_command = JStr ''GCODE'', a_args = JArr [JStr ''G28''],
         a_kwargs = JNull, a_force = Some False\<rparr>]"
  using dispatch_on_content_type
    [where res = command_response and h = "''7''" and cid = 7 and p = sample_printer
       and ct = "''application/json''" and kvs = "[(''command'', JStr ''SEND_INFO'')]"
       and e = "sample_env (Response command_response)" and msg = "[]"]
    dispatch_on_content_type
    [where res = "sample_response 200
           [(''Command-Id'', ''7''), (''Content-Type'', ''application/json'')]"
       and h = "''7''" and cid = 7 and p = sample_printer and ct = "''application/json''"
       and kvs = "[]"
       and e = "sample_env (Response (sample_response 200
           [(''Command-Id'', ''7''), (''Content-Type'', ''application/json'')]))"
       and msg = "''Expecting value: line 1 column 1 (char 0)''"]
    dispatch_on_content_type
    [where res = "sample_response 200
           [(''Command-Id'', ''7''), (''Content-Type'', ''text/x.gcode''), (''Force'', ''1'')]"
       and h = "''7''" and cid = 7 and p = sample_printer and ct = "''text/x.gcode''"
       and kvs = "[]"
       and e = "sample_env (Response (sample_response 200
           [(''Command-Id'', ''7''), (''Content-Type'', ''text/x.gcode''), (''Force'', ''1'')]))"
       and msg = "[]"]
    dispatch_on_content_type
    [where res = "sample_response 200 [(''Command-Id'', ''7''), (''Content-Type'', ''text/plain'')]"
       and h = "''7''" and cid = 7 and p = sample_printer and ct = "''text/plain''"
       and kvs = "[]"
       and e = "sample_env (Response (sample_response 200
           [(''Command-Id'', ''7''), (''Content-Type'', ''text/plain'')]))"
       and msg = "[]"]
    dispatch_on_content_type
    [where res = "sample_response 200
           [(''Command-Id'', [CHR 0xA0, CHR ''7'']), (''Content-Type'', ''text/x.gcode'')]"
       and h = "[CHR 0xA0, CHR ''7'']" and cid = 7 and p = sample_printer
       and ct = "''text/x.gcode''" and kvs = "[]"
       and e = "sample_env (Response (sample_response 200
           [(''Command-Id'', [CHR 0xA0, CHR ''7'']), (''Content-Type'', ''text/x.gcode'')]))"
       and msg = "[]"]
  by (simp add: eval_defs accept_calls_def dict_get_def Command_GCODE_value_def)

theorem dispatch_on_content_type_counterexample:
  "check_state (sample_env (Response (sample_response 200
       [(''Command-Id'', ''7''), (''Content-Type'', ''application/json'')]))) 7
   \<and> accept_calls (parse_command
        (sample_env (Response (sample_response 200
           [(''Command-Id'', ''7''), (''Content-Type'', ''application/json'')])))
        (sample_response 200 [(''Command-Id'', ''7''), (''Content-Type'', ''application/json'')])
        sample_printer) = []
   \<and> queue (parse_command
        (sample_env (Response (sample_response 200
           [(''Command-Id'', ''7''), (''Content-Type'', ''application/json'')])))
        (sample_response 200 [(''Command-Id'', ''7''), (''Content-Type'', ''application/json'')])
        sample_printer)
     = [Event REJECTED CONNECT 1001 (Some 7)
          [(''reason'', PStr ''Expecting value: line 1 column 1 (char 0)''),
           (''job_id'', PInt 42)]]"
  by (simp add: eval_defs parse_command_def command_id_of_def is_initialised_def dispatch_def
      emit_def event_cb_def queue_put_def Event_init_def default_timestamp_def with_job_id_def
      accept_calls_def Let_def)

end
